theory Spec2Isabelle
  imports Complex_Main
begin

section \<open>Python primitives used by the routing core\<close>

text \<open>
  The routing core of \<^verbatim>\<open>src/app.py\<close> (classes \<^verbatim>\<open>RouteService\<close>,
  \<^verbatim>\<open>TollService\<close>, \<^verbatim>\<open>RoutingAgent\<close> and \<^verbatim>\<open>CostCalculationAgent\<close>) computes
  with Python floats. They are embedded as exact real numbers: \<open>+\<close>, \<open>*\<close>, \<open>/\<close>,
  \<^verbatim>\<open>math.sin\<close>, \<^verbatim>\<open>math.cos\<close> are the real operations. Everything that raises in
  Python is a value \<open>Inl e\<close> of the model. Infinities and NaN are not part of the
  model. A double differs from the real number it stands for by a rounding error; the
  two places where that error changes what the program does are treated as follows.
  \<^item> The haversine argument \<^verbatim>\<open>a\<close> is at most 1 as a real number, and can come out
    one unit in the last place above 1 as a double. The functions
    \<open>haversine_from_a\<close>, \<open>estimate_tolls_from\<close>, \<open>calculate_route_tolls_from\<close> and
    \<open>distancia_tempo_from\<close> are the code that follows the assignment to \<^verbatim>\<open>a\<close>, as
    functions of the value the machine holds in \<^verbatim>\<open>a\<close>.
  \<^item> \<^verbatim>\<open>round(x, n)\<close> returns the multiple of \<open>10^-n\<close> nearest to the double \<open>x\<close>.
    When the exact value of a formula lies halfway between two multiples, the rounding
    error of the double decides between them, so \<open>py_round\<close> of the exact value and
    Python's result may be different neighbours. The statements on the rounded value
    of a formula use the relation \<open>arredondado\<close>, which admits both.
\<close>

datatype py_error = ValueError | ZeroDivisionError | KeyError

type_synonym coord = "real \<times> real"

text \<open>\<^verbatim>\<open>math.radians(x)\<close>: degrees to radians.\<close>

definition radians :: "real \<Rightarrow> real" where
  "radians x = x * (pi / 180)"

text \<open>\<^verbatim>\<open>math.sqrt(x)\<close> raises \<^verbatim>\<open>ValueError\<close> (math domain error) on a negative argument.\<close>

definition py_sqrt :: "real \<Rightarrow> py_error + real" where
  "py_sqrt x = (if x < 0 then Inl ValueError else Inr (sqrt x))"

text \<open>\<^verbatim>\<open>math.atan2(y, x)\<close>: the angle of the point \<open>(x, y)\<close>, in \<open>(-pi, pi]\<close>.\<close>

definition atan2 :: "real \<Rightarrow> real \<Rightarrow> real" where
  "atan2 y x =
     (if 0 < x then arctan (y / x)
      else if x < 0 then (if 0 \<le> y then arctan (y / x) + pi else arctan (y / x) - pi)
      else if 0 < y then pi / 2
      else if y < 0 then - (pi / 2)
      else 0)"

text \<open>\<^verbatim>\<open>int(x)\<close> on a float truncates towards zero.\<close>

definition py_int :: "real \<Rightarrow> int" where
  "py_int x = (if 0 \<le> x then \<lfloor>x\<rfloor> else \<lceil>x\<rceil>)"

text \<open>
  \<^verbatim>\<open>round(x, n)\<close>: the nearest multiple of \<open>10^-n\<close>, a tie going to the even
  multiple.
\<close>

definition round_half_even :: "real \<Rightarrow> int" where
  "round_half_even x =
     (let f = \<lfloor>x\<rfloor>; d = x - of_int f
      in if d < 1 / 2 then f
         else if 1 / 2 < d then f + 1
         else if even f then f else f + 1)"

definition py_round :: "real \<Rightarrow> nat \<Rightarrow> real" where
  "py_round x n = of_int (round_half_even (x * 10 ^ n)) / 10 ^ n"

section \<open>Distance Estimator\<close>

text \<open>
  \<^verbatim>\<open>RoutingAgent._calculate_haversine_distance\<close> (lines 526--541). \<open>haversine_a\<close>
  is the local variable \<^verbatim>\<open>a\<close>; the two \<^verbatim>\<open>sqrt\<close> calls are the only places
  where the function can raise.
\<close>

definition haversine_a :: "coord \<Rightarrow> coord \<Rightarrow> real" where
  "haversine_a coord1 coord2 =
     (let lat1 = radians (fst coord1); lon1 = radians (snd coord1);
          lat2 = radians (fst coord2); lon2 = radians (snd coord2);
          dlat = lat2 - lat1;
          dlon = lon2 - lon1
      in (sin (dlat / 2))\<^sup>2 + cos lat1 * cos lat2 * (sin (dlon / 2))\<^sup>2)"

definition calculate_haversine_distance :: "coord \<Rightarrow> coord \<Rightarrow> py_error + real" where
  "calculate_haversine_distance coord1 coord2 =
     (let R = 6371;
          a = haversine_a coord1 coord2
      in case py_sqrt a of
           Inl e \<Rightarrow> Inl e
         | Inr s1 \<Rightarrow>
             (case py_sqrt (1 - a) of
                Inl e \<Rightarrow> Inl e
              | Inr s2 \<Rightarrow> Inr (R * (2 * atan2 s1 s2))))"

text \<open>The value the estimator returns, as a closed formula.\<close>

definition great_circle_km :: "coord \<Rightarrow> coord \<Rightarrow> real" where
  "great_circle_km coord1 coord2 =
     6371 * (2 * atan2 (sqrt (haversine_a coord1 coord2)) (sqrt (1 - haversine_a coord1 coord2)))"

text \<open>
  Lines 539--541 of the Distance Estimator, as a function of the value the machine holds
  in \<^verbatim>\<open>a\<close> after the assignment of line 538. \<^verbatim>\<open>1 - a\<close> is exact in doubles for
  \<open>a\<close> near 1, so the second square root raises as soon as that value exceeds 1.
\<close>

definition haversine_from_a :: "real \<Rightarrow> py_error + real" where
  "haversine_from_a a =
     (let R = 6371
      in case py_sqrt a of
           Inl e \<Rightarrow> Inl e
         | Inr s1 \<Rightarrow>
             (case py_sqrt (1 - a) of
                Inl e \<Rightarrow> Inl e
              | Inr s2 \<Rightarrow> Inr (R * (2 * atan2 s1 s2))))"

section \<open>Toll Estimator\<close>

text \<open>
  The dictionary \<^verbatim>\<open>TollService._estimate_tolls_by_distance\<close> returns. The key
  \<^verbatim>\<open>'valor_total'\<close> is the field \<open>valor_total_pedagios\<close> here, since the documents
  have a \<^verbatim>\<open>valor_total\<close> of their own.
\<close>

record pedagios_info =
  valor_total_pedagios :: real
  numero_pracas :: int
  valor_medio :: real
  estimado :: bool

text \<open>
  \<^verbatim>\<open>_estimate_tolls_by_distance\<close> (lines 385--411). It repeats the haversine formula
  inline (the same expression \<open>haversine_a\<close>), then counts the plazas. The local
  variable \<^verbatim>\<open>valor_pedagio_por_km\<close> is bound to \<^verbatim>\<open>0.15 * 0.4\<close> in the source; it is
  the first argument of \<open>estimate_tolls\<close>, so that what the result owes to it can be
  stated.
\<close>

definition estimate_tolls :: "real \<Rightarrow> coord \<Rightarrow> coord \<Rightarrow> py_error + pedagios_info" where
  "estimate_tolls valor_pedagio_por_km origem destino =
     (let R = 6371;
          a = haversine_a origem destino
      in case py_sqrt a of
           Inl e \<Rightarrow> Inl e
         | Inr s1 \<Rightarrow>
             (case py_sqrt (1 - a) of
                Inl e \<Rightarrow> Inl e
              | Inr s2 \<Rightarrow>
                  (let c = 2 * atan2 s1 s2;
                       distancia = R * c;
                       numero_pedagogios = max 1 (py_int (distancia / 150));
                       valor_medio_pedagio = 15
                   in Inr \<lparr>valor_total_pedagios =
                             py_round (of_int numero_pedagogios * valor_medio_pedagio) 2,
                           numero_pracas = numero_pedagogios,
                           valor_medio = valor_medio_pedagio,
                           estimado = True\<rparr>)))"

definition estimate_tolls_by_distance :: "coord \<Rightarrow> coord \<Rightarrow> py_error + pedagios_info" where
  "estimate_tolls_by_distance origem destino = estimate_tolls (0.15 * 0.4) origem destino"

text \<open>
  \<^verbatim>\<open>TollService.calculate_route_tolls\<close> (lines 371--383): without a key the estimate;
  with a key the estimate inside \<^verbatim>\<open>try\<close>, and the estimate again in the handler.
\<close>

definition calculate_route_tolls :: "string \<Rightarrow> coord \<Rightarrow> coord \<Rightarrow> py_error + pedagios_info" where
  "calculate_route_tolls api_key origem destino =
     (if api_key = [] then estimate_tolls_by_distance origem destino
      else case estimate_tolls_by_distance origem destino of
             Inr r \<Rightarrow> Inr r
           | Inl e \<Rightarrow> estimate_tolls_by_distance origem destino)"

text \<open>
  The two functions again, from line 397 on, as functions of the value the machine holds
  in \<^verbatim>\<open>a\<close> after the assignment of line 396. With a credential, an exception of the
  estimate inside \<^verbatim>\<open>try\<close> is caught and the estimate is called again in the handler,
  where the same exception is raised and leaves the function.
\<close>

definition estimate_tolls_from :: "real \<Rightarrow> real \<Rightarrow> py_error + pedagios_info" where
  "estimate_tolls_from valor_pedagio_por_km a =
     (let R = 6371
      in case py_sqrt a of
           Inl e \<Rightarrow> Inl e
         | Inr s1 \<Rightarrow>
             (case py_sqrt (1 - a) of
                Inl e \<Rightarrow> Inl e
              | Inr s2 \<Rightarrow>
                  (let c = 2 * atan2 s1 s2;
                       distancia = R * c;
                       numero_pedagogios = max 1 (py_int (distancia / 150));
                       valor_medio_pedagio = 15
                   in Inr \<lparr>valor_total_pedagios =
                             py_round (of_int numero_pedagogios * valor_medio_pedagio) 2,
                           numero_pracas = numero_pedagogios,
                           valor_medio = valor_medio_pedagio,
                           estimado = True\<rparr>)))"

definition calculate_route_tolls_from :: "string \<Rightarrow> real \<Rightarrow> py_error + pedagios_info" where
  "calculate_route_tolls_from api_key a =
     (if api_key = [] then estimate_tolls_from (0.15 * 0.4) a
      else case estimate_tolls_from (0.15 * 0.4) a of
             Inr r \<Rightarrow> Inr r
           | Inl e \<Rightarrow> estimate_tolls_from (0.15 * 0.4) a)"

section \<open>The external routing service\<close>

text \<open>
  What \<^verbatim>\<open>response.json()\<close> can return, and Python's truth value of it
  (\<^verbatim>\<open>bool(x)\<close>). A number written without fraction or exponent is parsed to a Python
  \<^verbatim>\<open>int\<close> (\<open>JInt\<close>, unbounded), any other number to a \<^verbatim>\<open>float\<close> (\<open>JNum\<close>). An
  object is the list of its members, as parsed (keys distinct).
\<close>

datatype json =
    JNull
  | JBool bool
  | JInt int
  | JNum real
  | JStr string
  | JArr "json list"
  | JObj "(string \<times> json) list"

fun py_bool :: "json \<Rightarrow> bool" where
  "py_bool JNull = False"
| "py_bool (JBool b) = b"
| "py_bool (JInt k) = (k \<noteq> 0)"
| "py_bool (JNum r) = (r \<noteq> 0)"
| "py_bool (JStr s) = (s \<noteq> [])"
| "py_bool (JArr xs) = (xs \<noteq> [])"
| "py_bool (JObj kvs) = (kvs \<noteq> [])"

text \<open>
  \<^verbatim>\<open>d[key]\<close> for a string key: a value when \<open>d\<close> is an object with that key,
  otherwise \<^verbatim>\<open>KeyError\<close> or \<^verbatim>\<open>TypeError\<close> (\<open>None\<close> here; both are caught by the
  caller's \<^verbatim>\<open>except Exception\<close>).
\<close>

fun py_getitem :: "json \<Rightarrow> string \<Rightarrow> json option" where
  "py_getitem (JObj kvs) k = map_of kvs k"
| "py_getitem _ k = None"

text \<open>
  \<^verbatim>\<open>x / n\<close> for a JSON value \<open>x\<close> and a positive integer literal \<open>n\<close>. On a
  \<^verbatim>\<open>float\<close> it is the quotient. On an \<^verbatim>\<open>int\<close> (\<^verbatim>\<open>True\<close> and \<^verbatim>\<open>False\<close> are the
  integers 1 and 0) it is the quotient rounded to the nearest double, and
  \<^verbatim>\<open>OverflowError\<close> when that is beyond the largest double \<open>2^1024 - 2^971\<close>, which is
  the case from \<open>2^1024 - 2^970\<close> on. On every other value it is \<^verbatim>\<open>TypeError\<close>. Both
  exceptions are \<open>None\<close> here; they are caught by the caller's \<^verbatim>\<open>except Exception\<close>.
\<close>

fun json_truediv :: "json \<Rightarrow> real \<Rightarrow> real option" where
  "json_truediv (JNum r) n = Some (r / n)"
| "json_truediv (JInt k) n =
     (if \<bar>of_int k / n\<bar> < 2 ^ 1024 - 2 ^ 970 then Some (of_int k / n) else None)"
| "json_truediv (JBool b) n = Some ((if b then 1 else 0) / n)"
| "json_truediv _ n = None"

text \<open>
  The outcome of one \<^verbatim>\<open>requests.post\<close>: the call raises (timeout, connection
  error), or there is a response with a status code and a body; \<open>json_body = None\<close>
  is a body on which \<^verbatim>\<open>response.json()\<close> raises.
\<close>

datatype http_result =
    RequestException
  | HttpResponse (status_code: int) (json_body: "json option")

text \<open>The dictionary \<^verbatim>\<open>RouteService.calculate_distance_time\<close> returns.\<close>

record distance_time =
  dt_distancia_km :: real
  dt_tempo_horas :: real
  dt_geometria :: "json option"

text \<open>
  \<^verbatim>\<open>RouteService.calculate_distance_time\<close> (lines 319--363). \<open>post\<close> is the
  directions endpoint: the outcome of the request for the two points. Every exception
  inside \<^verbatim>\<open>try\<close> ends in \<^verbatim>\<open>return None\<close>.
  \<^item> \<^verbatim>\<open>'routes' in data and len(data['routes']) > 0\<close> goes on only when \<open>data\<close> is an
    object with a key \<^verbatim>\<open>routes\<close>; on a list or a string \<^verbatim>\<open>data['routes']\<close> raises,
    on the other values \<^verbatim>\<open>in\<close> raises.
  \<^item> \<^verbatim>\<open>data['routes'][0]\<close> followed by \<^verbatim>\<open>route['summary']\<close> goes on only when the
    routes are a non-empty list (the first character of a string has no
    \<^verbatim>\<open>['summary']\<close>, an object has no key \<^verbatim>\<open>0\<close>, \<^verbatim>\<open>len\<close> of the rest raises).
  \<^item> \<^verbatim>\<open>route.get('geometry', None)\<close> is \<^verbatim>\<open>None\<close> both for a missing key and for
    the JSON value \<^verbatim>\<open>null\<close>.
\<close>

definition extract_distance_time :: "json \<Rightarrow> distance_time option" where
  "extract_distance_time data =
     (case py_getitem data ''routes'' of
        Some (JArr (route # rest)) \<Rightarrow>
          (case py_getitem route ''summary'' of
             None \<Rightarrow> None
           | Some summary \<Rightarrow>
               (case py_getitem summary ''distance'' of
                  None \<Rightarrow> None
                | Some distance \<Rightarrow>
                    (case json_truediv distance 1000 of
                       None \<Rightarrow> None
                     | Some dist_km \<Rightarrow>
                         (case py_getitem summary ''duration'' of
                            None \<Rightarrow> None
                          | Some duration \<Rightarrow>
                              (case json_truediv duration 3600 of
                                 None \<Rightarrow> None
                               | Some dur_h \<Rightarrow>
                                   Some \<lparr>dt_distancia_km = py_round dist_km 2,
                                         dt_tempo_horas = py_round dur_h 2,
                                         dt_geometria =
                                           (case py_getitem route ''geometry'' of
                                              Some JNull \<Rightarrow> None
                                            | geometry \<Rightarrow> geometry)\<rparr>)))))
      | _ \<Rightarrow> None)"

definition calculate_distance_time ::
    "string \<Rightarrow> (coord \<Rightarrow> coord \<Rightarrow> http_result) \<Rightarrow> coord \<Rightarrow> coord \<Rightarrow> distance_time option" where
  "calculate_distance_time api_key post origem destino =
     (if api_key = [] then None
      else case post origem destino of
             RequestException \<Rightarrow> None
           | HttpResponse status body \<Rightarrow>
               (if status = 200
                then (case body of None \<Rightarrow> None | Some data \<Rightarrow> extract_distance_time data)
                else None))"

text \<open>
  \<^verbatim>\<open>RouteService.calculate_optimized_route\<close> (lines 261--317): the parsed body of a
  200 response of the optimization endpoint, otherwise \<^verbatim>\<open>None\<close>.
\<close>

definition RouteService_calculate_optimized_route ::
    "string \<Rightarrow> (coord \<Rightarrow> coord list \<Rightarrow> http_result) \<Rightarrow> coord \<Rightarrow> coord list \<Rightarrow> json option" where
  "RouteService_calculate_optimized_route api_key post origem destinos =
     (if api_key = [] then None
      else case post origem destinos of
             RequestException \<Rightarrow> None
           | HttpResponse status body \<Rightarrow> (if status = 200 then body else None))"

section \<open>Route Sequencer\<close>

text \<open>
  The fields of \<^verbatim>\<open>FiscalDocument\<close> (lines 31--45); \<^verbatim>\<open>produtos\<close>,
  \<^verbatim>\<open>prazo_entrega\<close> and \<^verbatim>\<open>restricoes\<close> are never read by the routing core and are
  left out.
\<close>

record FiscalDocument =
  tipo :: string
  numero :: string
  destinatario :: string
  endereco_completo :: string
  cidade :: string
  uf :: string
  cep :: string
  valor_total :: real
  peso_total :: real
  coordenadas :: "coord option"

text \<open>
  A value of the dictionary \<^verbatim>\<open>entregas_por_local\<close> (keys \<^verbatim>\<open>'documentos'\<close> and
  \<^verbatim>\<open>'coordenadas'\<close>). The dictionary itself is the list of its items in insertion
  order, which is the order Python iterates it in.
\<close>

record info_local =
  info_documentos :: "FiscalDocument list"
  info_coordenadas :: coord

type_synonym locais = "(string \<times> info_local) list"

definition chave_local :: "FiscalDocument \<Rightarrow> string" where
  "chave_local doc = cidade doc @ '', '' @ uf doc"

text \<open>
  One round of the grouping loop (lines 440--451), on the pair of
  \<^verbatim>\<open>entregas_por_local\<close> and \<^verbatim>\<open>coordenadas_destinos\<close>.
\<close>

definition agrupar_documento :: "locais \<times> coord list \<Rightarrow> FiscalDocument \<Rightarrow> locais \<times> coord list" where
  "agrupar_documento estado doc =
     (case coordenadas doc of
        None \<Rightarrow> estado
      | Some c \<Rightarrow>
          (let entregas_por_local = fst estado;
               coordenadas_destinos = snd estado;
               chave = chave_local doc;
               com_chave =
                 (if chave \<in> set (map fst entregas_por_local) then entregas_por_local
                  else entregas_por_local
                         @ [(chave, \<lparr>info_documentos = [], info_coordenadas = c\<rparr>)]);
               com_documento =
                 map (\<lambda>(k, info).
                        if k = chave
                        then (k, info\<lparr>info_documentos := info_documentos info @ [doc]\<rparr>)
                        else (k, info))
                     com_chave
           in (com_documento,
               if c \<in> set coordenadas_destinos then coordenadas_destinos
               else coordenadas_destinos @ [c])))"

definition agrupar :: "FiscalDocument list \<Rightarrow> locais \<times> coord list" where
  "agrupar documentos = foldl agrupar_documento ([], []) documentos"

text \<open>One element of \<^verbatim>\<open>rotas_calculadas\<close> (lines 490--502).\<close>

record rota =
  sequencia :: nat
  origem :: string
  destino :: string
  coordenadas_destino :: coord
  distancia_km :: real
  tempo_estimado_horas :: real
  entregas :: nat
  documentos :: "string list"
  valor_total_entregas :: real
  peso_total_entregas :: real
  pedagios :: pedagios_info

text \<open>The \<^verbatim>\<open>'resumo'\<close> dictionary (lines 515--523) and the whole result.\<close>

record resumo_rota =
  total_cidades :: nat
  total_entregas :: nat
  distancia_total_km :: real
  tempo_total_horas :: real
  tempo_total_dias :: real
  custo_pedagogios_total :: real
  api_utilizada :: bool

record rota_info =
  rotas :: "rota list"
  origem_coordenadas :: coord
  resumo :: resumo_rota

text \<open>
  Everything outside the program that a routing run reads: the two credentials, the
  geocoder's answer for an address, the optimization endpoint, and the directions
  endpoint. The directions endpoint is indexed by the number of the call (the loop
  counter \<^verbatim>\<open>i\<close>), so that it may answer the same request differently each time.
\<close>

record ambiente =
  openroute_key :: string
  tollguru_key :: string
  geocode_address :: "string \<Rightarrow> coord option"
  post_optimization :: "coord \<Rightarrow> coord list \<Rightarrow> http_result"
  post_directions :: "nat \<Rightarrow> coord \<Rightarrow> coord \<Rightarrow> http_result"

text \<open>
  The variables the leg loop updates (lines 459--467). \<open>pedagogios_total\<close> is the
  accumulator \<^verbatim>\<open>custo_pedagogios_total\<close>.
\<close>

record estado =
  rotas_calculadas :: "rota list"
  distancia_total :: real
  tempo_total :: real
  pedagogios_total :: real
  ponto_anterior :: coord
  nome_anterior :: string

text \<open>
  Lines 473--483 of the loop body: the metrics of one leg. The value of
  \<^verbatim>\<open>calculate_distance_time\<close> is a dictionary of three keys when it is not
  \<^verbatim>\<open>None\<close>, so \<^verbatim>\<open>if rota_info:\<close> tests for \<^verbatim>\<open>None\<close>.
\<close>

definition distancia_tempo ::
    "string \<Rightarrow> (coord \<Rightarrow> coord \<Rightarrow> http_result) \<Rightarrow> coord \<Rightarrow> coord \<Rightarrow> py_error + real \<times> real" where
  "distancia_tempo api_key post ponto coords_destino =
     (case calculate_distance_time api_key post ponto coords_destino of
        Some rota_api \<Rightarrow> Inr (dt_distancia_km rota_api, dt_tempo_horas rota_api)
      | None \<Rightarrow>
          (case calculate_haversine_distance ponto coords_destino of
             Inl e \<Rightarrow> Inl e
           | Inr distancia \<Rightarrow> Inr (distancia, distancia / 60)))"

text \<open>
  The same lines, with the fallback reading the value the machine holds in \<^verbatim>\<open>a\<close>
  inside \<^verbatim>\<open>_calculate_haversine_distance\<close>.
\<close>

definition distancia_tempo_from ::
    "string \<Rightarrow> (coord \<Rightarrow> coord \<Rightarrow> http_result) \<Rightarrow> coord \<Rightarrow> coord \<Rightarrow> real
      \<Rightarrow> py_error + real \<times> real" where
  "distancia_tempo_from api_key post ponto coords_destino a =
     (case calculate_distance_time api_key post ponto coords_destino of
        Some rota_api \<Rightarrow> Inr (dt_distancia_km rota_api, dt_tempo_horas rota_api)
      | None \<Rightarrow>
          (case haversine_from_a a of
             Inl e \<Rightarrow> Inl e
           | Inr distancia \<Rightarrow> Inr (distancia, distancia / 60)))"

text \<open>The body of the leg loop (lines 470--510) for the key \<open>local\<close> at index \<open>i\<close>.\<close>

definition trecho :: "ambiente \<Rightarrow> locais \<Rightarrow> nat \<Rightarrow> string \<Rightarrow> estado \<Rightarrow> py_error + estado" where
  "trecho env entregas_por_local i local st =
     (case map_of entregas_por_local local of
        None \<Rightarrow> Inl KeyError
      | Some info \<Rightarrow>
          (let coords_destino = info_coordenadas info
           in case distancia_tempo (openroute_key env) (post_directions env i)
                     (ponto_anterior st) coords_destino of
                Inl e \<Rightarrow> Inl e
              | Inr (distancia, tempo) \<Rightarrow>
                  (case calculate_route_tolls (tollguru_key env) (ponto_anterior st)
                          coords_destino of
                     Inl e \<Rightarrow> Inl e
                   | Inr pedagogios_info \<Rightarrow>
                       Inr \<lparr>rotas_calculadas = rotas_calculadas st @
                               [\<lparr>sequencia = i + 1,
                                 origem = nome_anterior st,
                                 destino = local,
                                 coordenadas_destino = coords_destino,
                                 distancia_km = py_round distancia 2,
                                 tempo_estimado_horas = py_round tempo 2,
                                 entregas = length (info_documentos info),
                                 documentos = map numero (info_documentos info),
                                 valor_total_entregas =
                                   sum_list (map valor_total (info_documentos info)),
                                 peso_total_entregas =
                                   sum_list (map peso_total (info_documentos info)),
                                 pedagios = pedagogios_info\<rparr>],
                             distancia_total = distancia_total st + distancia,
                             tempo_total = tempo_total st + tempo,
                             pedagogios_total =
                               pedagogios_total st + valor_total_pedagios pedagogios_info,
                             ponto_anterior = coords_destino,
                             nome_anterior = local\<rparr>)))"

text \<open>The loop \<^verbatim>\<open>for i, local in enumerate(locais_ordenados)\<close>, from index \<open>i\<close> on.\<close>

fun percorrer :: "ambiente \<Rightarrow> locais \<Rightarrow> nat \<Rightarrow> string list \<Rightarrow> estado \<Rightarrow> py_error + estado" where
  "percorrer env entregas_por_local i [] st = Inr st"
| "percorrer env entregas_por_local i (local # resto) st =
     (case trecho env entregas_por_local i local st of
        Inl e \<Rightarrow> Inl e
      | Inr st' \<Rightarrow> percorrer env entregas_por_local (Suc i) resto st')"

text \<open>
  Lines 459--510: the accumulators are initialised and the loop runs over
  \<^verbatim>\<open>locais_ordenados = list(entregas_por_local.keys())\<close>, starting at the origin.
\<close>

definition rotas_individuais :: "ambiente \<Rightarrow> locais \<Rightarrow> coord \<Rightarrow> string \<Rightarrow> py_error + estado" where
  "rotas_individuais env entregas_por_local origem_coords endereco_origem =
     (let locais_ordenados = map fst entregas_por_local
      in percorrer env entregas_por_local 0 locais_ordenados
           \<lparr>rotas_calculadas = [], distancia_total = 0, tempo_total = 0,
            pedagogios_total = 0, ponto_anterior = origem_coords,
            nome_anterior = endereco_origem\<rparr>)"

text \<open>
  \<^verbatim>\<open>RoutingAgent.calculate_optimized_route\<close> (lines 423--524). The result is
  \<open>Inr None\<close> when the origin is not geocoded (\<^verbatim>\<open>return None\<close>). The flag
  \<^verbatim>\<open>api_utilizada\<close> is \<^verbatim>\<open>bool(rota_otimizada_api)\<close>.
\<close>

definition calculate_optimized_route ::
    "ambiente \<Rightarrow> FiscalDocument list \<Rightarrow> string \<Rightarrow> py_error + rota_info option" where
  "calculate_optimized_route env docs endereco_origem =
     (case geocode_address env endereco_origem of
        None \<Rightarrow> Inr None
      | Some origem_coords \<Rightarrow>
          (let entregas_por_local = fst (agrupar docs);
               coordenadas_destinos = snd (agrupar docs);
               rota_otimizada_api =
                 RouteService_calculate_optimized_route (openroute_key env)
                   (post_optimization env) origem_coords coordenadas_destinos;
               locais_ordenados = map fst entregas_por_local
           in case rotas_individuais env entregas_por_local origem_coords endereco_origem of
                Inl e \<Rightarrow> Inl e
              | Inr st \<Rightarrow>
                  Inr (Some
                    \<lparr>rotas = rotas_calculadas st,
                     origem_coordenadas = origem_coords,
                     resumo =
                       \<lparr>total_cidades = length locais_ordenados,
                        total_entregas =
                          sum_list (map (\<lambda>(k, info). length (info_documentos info))
                                        entregas_por_local),
                        distancia_total_km = py_round (distancia_total st) 2,
                        tempo_total_horas = py_round (tempo_total st) 2,
                        tempo_total_dias = py_round (tempo_total st / 8) 1,
                        custo_pedagogios_total = py_round (pedagogios_total st) 2,
                        api_utilizada =
                          (case rota_otimizada_api of
                             None \<Rightarrow> False
                           | Some j \<Rightarrow> py_bool j)\<rparr>\<rparr>)))"

section \<open>Cost Estimator\<close>

record detalhamento_custos =
  combustivel :: real
  pedagio :: real
  desgaste_veiculo :: real
  motorista :: real
  seguro :: real
  taxa_entregas :: real
  alimentacao :: real
  pernoite :: real

record parametros_utilizados =
  consumo_medio_km_l :: real
  preco_combustivel_litro :: real
  valor_hora_motorista :: real
  litros_necessarios :: real

record resumo_custos =
  custo_total :: real
  custo_por_entrega :: real
  custo_por_km :: real
  valor_mercadorias :: real
  percentual_custo :: real

text \<open>
  The recommendation texts of \<^verbatim>\<open>_generate_recommendations\<close>, one constructor per
  message, in the order of the source.
\<close>

datatype recomendacao =
    CustoElevado
  | ConsolidarEntregas
  | ExcelenteEficiencia
  | CustosNaMedia
  | RotaLonga
  | AvaliarTerceirizacao
  | PedagiosAltos
  | MonitorarCombustivel
  | ManterVeiculo

record custos_info =
  detalhamento :: detalhamento_custos
  parametros :: parametros_utilizados
  resumo_dos_custos :: resumo_custos
  recomendacoes :: "recomendacao list"

text \<open>\<^verbatim>\<open>x / y\<close> on numbers raises \<^verbatim>\<open>ZeroDivisionError\<close> when \<open>y\<close> is zero.\<close>

definition py_truediv :: "real \<Rightarrow> real \<Rightarrow> py_error + real" where
  "py_truediv x y = (if y = 0 then Inl ZeroDivisionError else Inr (x / y))"

text \<open>\<^verbatim>\<open>_generate_recommendations\<close> (lines 609--635).\<close>

definition generate_recommendations :: "real \<Rightarrow> real \<Rightarrow> real \<Rightarrow> rota_info \<Rightarrow> recomendacao list" where
  "generate_recommendations custo valor_das_mercadorias percentual info =
     (if 15 < percentual then [CustoElevado, ConsolidarEntregas]
      else if percentual < 5 then [ExcelenteEficiencia]
      else [CustosNaMedia])
     @ (if 3 < tempo_total_dias (resumo info) then [RotaLonga] else [])
     @ (if 5000 < custo then [AvaliarTerceirizacao] else [])
     @ (if custo * 0.2 < custo_pedagogios_total (resumo info) then [PedagiosAltos] else [])
     @ [MonitorarCombustivel, ManterVeiculo]"

text \<open>
  The eight category costs before rounding (lines 559--570), as functions of the
  summary and the parameters.
\<close>

definition custo_combustivel :: "resumo_rota \<Rightarrow> real \<Rightarrow> real \<Rightarrow> real" where
  "custo_combustivel r consumo_medio preco_combustivel =
     distancia_total_km r / consumo_medio * preco_combustivel"

definition custo_desgaste :: "resumo_rota \<Rightarrow> real" where
  "custo_desgaste r = distancia_total_km r * 0.45"

definition custo_motorista :: "resumo_rota \<Rightarrow> real \<Rightarrow> real" where
  "custo_motorista r valor_hora = tempo_total_horas r * valor_hora"

definition custo_seguro :: "resumo_rota \<Rightarrow> real" where
  "custo_seguro r = tempo_total_dias r * 50"

definition custo_entregas :: "resumo_rota \<Rightarrow> real" where
  "custo_entregas r = of_nat (total_entregas r) * 25"

definition custo_alimentacao :: "resumo_rota \<Rightarrow> real" where
  "custo_alimentacao r = tempo_total_dias r * 80"

definition custo_pernoite :: "resumo_rota \<Rightarrow> real" where
  "custo_pernoite r = max 0 (tempo_total_dias r - 1) * 150"

text \<open>\<^verbatim>\<open>CostCalculationAgent.calculate_route_costs\<close> (lines 550--607).\<close>

definition calculate_route_costs ::
    "rota_info \<Rightarrow> real \<Rightarrow> real \<Rightarrow> real \<Rightarrow> py_error + custos_info" where
  "calculate_route_costs info consumo_medio preco_combustivel valor_hora =
     (let resumo_rota = resumo info
      in case py_truediv (distancia_total_km resumo_rota) consumo_medio of
           Inl e \<Rightarrow> Inl e
         | Inr litros \<Rightarrow>
             (let combustivel_bruto = litros * preco_combustivel;
                  custo_pedagio = custo_pedagogios_total resumo_rota;
                  desgaste_bruto = custo_desgaste resumo_rota;
                  motorista_bruto = custo_motorista resumo_rota valor_hora;
                  seguro_bruto = custo_seguro resumo_rota;
                  entregas_bruto = custo_entregas resumo_rota;
                  alimentacao_bruto = custo_alimentacao resumo_rota;
                  pernoite_bruto = custo_pernoite resumo_rota;
                  total =
                    combustivel_bruto + custo_pedagio + desgaste_bruto + motorista_bruto
                      + seguro_bruto + entregas_bruto + alimentacao_bruto + pernoite_bruto
              in case py_truediv total (of_nat (total_entregas resumo_rota)) of
                   Inl e \<Rightarrow> Inl e
                 | Inr por_entrega \<Rightarrow>
                     (case py_truediv total (distancia_total_km resumo_rota) of
                        Inl e \<Rightarrow> Inl e
                      | Inr por_km \<Rightarrow>
                          (let valor_total_mercadorias =
                                 sum_list (map valor_total_entregas (rotas info));
                               percentual =
                                 (if 0 < valor_total_mercadorias
                                  then total / valor_total_mercadorias * 100 else 0)
                           in Inr
                             \<lparr>detalhamento =
                                \<lparr>combustivel = py_round combustivel_bruto 2,
                                 pedagio = py_round custo_pedagio 2,
                                 desgaste_veiculo = py_round desgaste_bruto 2,
                                 motorista = py_round motorista_bruto 2,
                                 seguro = py_round seguro_bruto 2,
                                 taxa_entregas = py_round entregas_bruto 2,
                                 alimentacao = py_round alimentacao_bruto 2,
                                 pernoite = py_round pernoite_bruto 2\<rparr>,
                              parametros =
                                \<lparr>consumo_medio_km_l = consumo_medio,
                                 preco_combustivel_litro = preco_combustivel,
                                 valor_hora_motorista = valor_hora,
                                 litros_necessarios = py_round litros 2\<rparr>,
                              resumo_dos_custos =
                                \<lparr>custo_total = py_round total 2,
                                 custo_por_entrega = py_round por_entrega 2,
                                 custo_por_km = py_round por_km 2,
                                 valor_mercadorias = py_round valor_total_mercadorias 2,
                                 percentual_custo = py_round percentual 2\<rparr>,
                              recomendacoes =
                                generate_recommendations total valor_total_mercadorias
                                  percentual info\<rparr>))))"

text \<open>
  The eight unrounded category costs, in the order in which line 572 adds them, and the
  eight category costs of a report, in the same order.
\<close>

definition custos_brutos :: "resumo_rota \<Rightarrow> real \<Rightarrow> real \<Rightarrow> real \<Rightarrow> real list" where
  "custos_brutos r consumo_medio preco_combustivel valor_hora =
     [custo_combustivel r consumo_medio preco_combustivel, custo_pedagogios_total r,
      custo_desgaste r, custo_motorista r valor_hora, custo_seguro r, custo_entregas r,
      custo_alimentacao r, custo_pernoite r]"

definition custos_devolvidos :: "custos_info \<Rightarrow> real list" where
  "custos_devolvidos c =
     [combustivel (detalhamento c), pedagio (detalhamento c), desgaste_veiculo (detalhamento c),
      motorista (detalhamento c), seguro (detalhamento c), taxa_entregas (detalhamento c),
      alimentacao (detalhamento c), pernoite (detalhamento c)]"

section \<open>Rounded figures\<close>

text \<open>
  \<open>arredondado n x y\<close>: the figure \<open>y\<close> is the value \<open>x\<close> rounded to \<open>n\<close> decimals,
  that is, \<open>y\<close> is a multiple of \<open>10^-n\<close> and lies at most half of \<open>10^-n\<close> away from
  \<open>x\<close>. When \<open>x\<close> is halfway between two multiples, both of them qualify. This
  definition follows the words of the amended claims, not a source function.
\<close>

definition arredondado :: "nat \<Rightarrow> real \<Rightarrow> real \<Rightarrow> bool" where
  "arredondado n x y = (y * 10 ^ n = of_int \<lfloor>y * 10 ^ n\<rfloor> \<and> \<bar>y - x\<bar> * (2 * 10 ^ n) \<le> 1)"

section \<open>First-seen order\<close>

text \<open>
  The order the specification asks of the destination groups: every key once, in the
  order of its first occurrence. This definition follows the specification's words;
  the grouping loop \<open>agrupar\<close> above follows the source.
\<close>

fun first_seen :: "'a list \<Rightarrow> 'a list" where
  "first_seen [] = []"
| "first_seen (x # xs) = x # filter (\<lambda>y. y \<noteq> x) (first_seen xs)"

text \<open>
  The records of a batch that have coordinates, the (city, region) pair of a record, and
  the string the grouping loop makes of such a pair. These three also follow the
  specification's words.
\<close>

definition com_coordenadas :: "FiscalDocument list \<Rightarrow> FiscalDocument list" where
  "com_coordenadas docs = filter (\<lambda>doc. coordenadas doc \<noteq> None) docs"

definition par_local :: "FiscalDocument \<Rightarrow> string \<times> string" where
  "par_local doc = (cidade doc, uf doc)"

definition rotulo :: "string \<times> string \<Rightarrow> string" where
  "rotulo par = fst par @ '', '' @ snd par"

section \<open>The leg loop without its error branches\<close>

text \<open>
  The definitions of this section are not translations of source functions. They
  describe, as plain values, what the functions above return once it is known that no
  error branch is taken: \<open>metricas\<close> is the pair of \<open>distancia_tempo\<close>,
  \<open>pedagio_estimado\<close> the dictionary of the Toll Estimator, \<open>montar_rota\<close> the leg
  record built by \<open>trecho\<close>, \<open>avancar\<close> the state after one round of the loop,
  \<open>avancar_todos\<close> the state after the whole loop, \<open>trechos\<close> the list of legs, and
  \<open>resultado\<close> the value of a routing run. The lemmas of the later sections prove
  that the source-level functions return exactly these values; the definitions are
  used in proofs only. \<open>docs_of\<close> names the records of a batch that have
  coordinates and a given key, and \<open>n_entregas\<close> the number of records in a
  dictionary of groups.
\<close>

definition docs_of :: "string \<Rightarrow> FiscalDocument list \<Rightarrow> FiscalDocument list" where
  "docs_of k docs = filter (\<lambda>doc. coordenadas doc \<noteq> None \<and> chave_local doc = k) docs"

definition n_entregas :: "locais \<Rightarrow> nat" where
  "n_entregas d = sum_list (map (\<lambda>(k, info). length (info_documentos info)) d)"

definition metricas :: "ambiente \<Rightarrow> nat \<Rightarrow> coord \<Rightarrow> coord \<Rightarrow> real \<times> real" where
  "metricas env i p q =
     (case calculate_distance_time (openroute_key env) (post_directions env i) p q of
        Some r \<Rightarrow> (dt_distancia_km r, dt_tempo_horas r)
      | None \<Rightarrow> (great_circle_km p q, great_circle_km p q / 60))"

definition pedagio_estimado :: "coord \<Rightarrow> coord \<Rightarrow> pedagios_info" where
  "pedagio_estimado p q =
     \<lparr>valor_total_pedagios = py_round (of_int (max 1 \<lfloor>great_circle_km p q / 150\<rfloor>) * 15) 2,
      numero_pracas = max 1 \<lfloor>great_circle_km p q / 150\<rfloor>,
      valor_medio = 15, estimado = True\<rparr>"

definition montar_rota :: "ambiente \<Rightarrow> nat \<Rightarrow> string \<Rightarrow> coord \<Rightarrow> string \<Rightarrow> info_local \<Rightarrow> rota" where
  "montar_rota env i nome ponto k info =
     \<lparr>sequencia = i + 1,
      origem = nome,
      destino = k,
      coordenadas_destino = info_coordenadas info,
      distancia_km = py_round (fst (metricas env i ponto (info_coordenadas info))) 2,
      tempo_estimado_horas = py_round (snd (metricas env i ponto (info_coordenadas info))) 2,
      entregas = length (info_documentos info),
      documentos = map numero (info_documentos info),
      valor_total_entregas = sum_list (map valor_total (info_documentos info)),
      peso_total_entregas = sum_list (map peso_total (info_documentos info)),
      pedagios = pedagio_estimado ponto (info_coordenadas info)\<rparr>"

definition avancar :: "ambiente \<Rightarrow> nat \<Rightarrow> string \<Rightarrow> info_local \<Rightarrow> estado \<Rightarrow> estado" where
  "avancar env i k info st =
     \<lparr>rotas_calculadas =
        rotas_calculadas st @ [montar_rota env i (nome_anterior st) (ponto_anterior st) k info],
      distancia_total =
        distancia_total st + fst (metricas env i (ponto_anterior st) (info_coordenadas info)),
      tempo_total =
        tempo_total st + snd (metricas env i (ponto_anterior st) (info_coordenadas info)),
      pedagogios_total =
        pedagogios_total st
          + valor_total_pedagios (pedagio_estimado (ponto_anterior st) (info_coordenadas info)),
      ponto_anterior = info_coordenadas info,
      nome_anterior = k\<rparr>"

fun avancar_todos :: "ambiente \<Rightarrow> nat \<Rightarrow> locais \<Rightarrow> estado \<Rightarrow> estado" where
  "avancar_todos env i [] st = st"
| "avancar_todos env i ((k, info) # items) st =
     avancar_todos env (Suc i) items (avancar env i k info st)"

fun trechos :: "ambiente \<Rightarrow> nat \<Rightarrow> string \<Rightarrow> coord \<Rightarrow> locais \<Rightarrow> rota list" where
  "trechos env i nome ponto [] = []"
| "trechos env i nome ponto ((k, info) # items) =
     montar_rota env i nome ponto k info # trechos env (Suc i) k (info_coordenadas info) items"

definition estado_inicial :: "coord \<Rightarrow> string \<Rightarrow> estado" where
  "estado_inicial oc nome =
     \<lparr>rotas_calculadas = [], distancia_total = 0, tempo_total = 0,
      pedagogios_total = 0, ponto_anterior = oc, nome_anterior = nome\<rparr>"

definition resultado :: "ambiente \<Rightarrow> FiscalDocument list \<Rightarrow> string \<Rightarrow> coord \<Rightarrow> rota_info" where
  "resultado env docs e oc =
     (let d = fst (agrupar docs);
          st = avancar_todos env 0 d (estado_inicial oc e)
      in \<lparr>rotas = rotas_calculadas st,
          origem_coordenadas = oc,
          resumo =
            \<lparr>total_cidades = length d,
             total_entregas = sum_list (map (\<lambda>(k, info). length (info_documentos info)) d),
             distancia_total_km = py_round (distancia_total st) 2,
             tempo_total_horas = py_round (tempo_total st) 2,
             tempo_total_dias = py_round (tempo_total st / 8) 1,
             custo_pedagogios_total = py_round (pedagogios_total st) 2,
             api_utilizada =
               (case RouteService_calculate_optimized_route (openroute_key env)
                       (post_optimization env) oc (snd (agrupar docs)) of
                  None \<Rightarrow> False
                | Some j \<Rightarrow> py_bool j)\<rparr>\<rparr>)"

section \<open>A worked batch\<close>

text \<open>
  Concrete inputs for the closed theorems below. The origin is Sao Paulo; the batch has
  two records for Campinas, one for Jundiai, and one for Santos whose address was not
  geocoded. Four surroundings are used. In \<open>env_com_api\<close> a routing credential is
  configured and every request succeeds: the directions endpoint reports 99120 m in
  4536 s for the first leg and 47360 m in 2412 s for the second. In
  \<open>env_sem_chaves\<close> no credential is configured. In \<open>env_rotas_falham\<close> the
  optimization request succeeds and every directions request returns status 503; in
  \<open>env_otimizacao_falha\<close> it is the other way round. \<open>exemplo_rota_info\<close> and
  \<open>exemplo_custos\<close> are the values the Route Sequencer and the Cost Estimator return
  for the batch in \<open>env_com_api\<close> (with 3.5 km/l, 6.20 per litre and 15.0 per hour),
  \<open>estado_1\<close> and \<open>estado_2\<close> the loop state after the first and the second leg, and
  \<open>rota_vazia\<close> the result for a batch in which no record has coordinates.

  Two more inputs. The records \<open>nfe_3001\<close> and \<open>nfe_3002\<close> have different
  (city, region) pairs, \<open>(Campinas, SP, Brasil)\<close> split after the first and after the
  second part, and different coordinates; \<open>rota_colisao\<close> is the value the Route
  Sequencer returns for the two of them in \<open>env_com_api\<close>. The points \<open>ponto_norte\<close>
  and \<open>antipoda\<close> are opposite points of the globe; with doubles, line 538 evaluates
  \<^verbatim>\<open>a\<close> to \<^verbatim>\<open>1.0000000000000002\<close> for them, which is \<open>1 + 2^-52\<close>.
\<close>

definition sao_paulo :: coord where "sao_paulo = (-23.55, -46.63)"

definition campinas :: coord where "campinas = (-22.91, -47.06)"

definition jundiai :: coord where "jundiai = (-23.19, -46.88)"

definition nfe_1001 :: FiscalDocument where
  "nfe_1001 = \<lparr>tipo = ''NFE'', numero = ''1001'', destinatario = ''Comercial Andrade'',
     endereco_completo = ''Rua Barao de Jaguara, 900'', cidade = ''Campinas'', uf = ''SP'',
     cep = ''13015001'', valor_total = 6000, peso_total = 300, coordenadas = Some campinas\<rparr>"

definition cte_2001 :: FiscalDocument where
  "cte_2001 = \<lparr>tipo = ''CTE'', numero = ''2001'', destinatario = ''Porto Sul'',
     endereco_completo = ''Cais 12'', cidade = ''Santos'', uf = ''SP'',
     cep = ''11010000'', valor_total = 2500, peso_total = 120, coordenadas = None\<rparr>"

definition nfe_1003 :: FiscalDocument where
  "nfe_1003 = \<lparr>tipo = ''NFE'', numero = ''1003'', destinatario = ''Mercado Serra'',
     endereco_completo = ''Rua do Rosario, 45'', cidade = ''Jundiai'', uf = ''SP'',
     cep = ''13201000'', valor_total = 1800, peso_total = 90, coordenadas = Some jundiai\<rparr>"

definition nfe_1002 :: FiscalDocument where
  "nfe_1002 = \<lparr>tipo = ''NFE'', numero = ''1002'', destinatario = ''Oficina Lima'',
     endereco_completo = ''Av. Brasil, 1500'', cidade = ''Campinas'', uf = ''SP'',
     cep = ''13070178'', valor_total = 4000, peso_total = 200, coordenadas = Some campinas\<rparr>"

definition lote :: "FiscalDocument list" where
  "lote = [nfe_1001, cte_2001, nfe_1003, nfe_1002]"

definition resposta_rota :: "real \<Rightarrow> real \<Rightarrow> http_result" where
  "resposta_rota metros segundos =
     HttpResponse 200 (Some (JObj [(''routes'',
       JArr [JObj [(''summary'', JObj [(''distance'', JNum metros), (''duration'', JNum segundos)])]])]))"

definition env_com_api :: ambiente where
  "env_com_api =
     \<lparr>openroute_key = ''ors-key'',
      tollguru_key = [],
      geocode_address = (\<lambda>a. if a = ''Sao Paulo, SP'' then Some sao_paulo else None),
      post_optimization = (\<lambda>o_c ds. HttpResponse 200 (Some (JObj [(''code'', JNum 0)]))),
      post_directions =
        (\<lambda>i p q. if i = 0 then resposta_rota 99120 4536 else resposta_rota 47360 2412)\<rparr>"

definition exemplo_rota_info :: rota_info where
  "exemplo_rota_info =
     \<lparr>rotas =
        [\<lparr>sequencia = 1, origem = ''Sao Paulo, SP'', destino = ''Campinas, SP'',
          coordenadas_destino = campinas, distancia_km = 99.12, tempo_estimado_horas = 1.26,
          entregas = 2, documentos = [''1001'', ''1002''], valor_total_entregas = 10000,
          peso_total_entregas = 500,
          pedagios = \<lparr>valor_total_pedagios = 15, numero_pracas = 1, valor_medio = 15,
                      estimado = True\<rparr>\<rparr>,
         \<lparr>sequencia = 2, origem = ''Campinas, SP'', destino = ''Jundiai, SP'',
          coordenadas_destino = jundiai, distancia_km = 47.36, tempo_estimado_horas = 0.67,
          entregas = 1, documentos = [''1003''], valor_total_entregas = 1800,
          peso_total_entregas = 90,
          pedagios = \<lparr>valor_total_pedagios = 15, numero_pracas = 1, valor_medio = 15,
                      estimado = True\<rparr>\<rparr>],
      origem_coordenadas = sao_paulo,
      resumo =
        \<lparr>total_cidades = 2, total_entregas = 3, distancia_total_km = 146.48,
         tempo_total_horas = 1.93, tempo_total_dias = 0.2, custo_pedagogios_total = 30,
         api_utilizada = True\<rparr>\<rparr>"

definition estado_1 :: estado where
  "estado_1 =
     \<lparr>rotas_calculadas = [rotas exemplo_rota_info ! 0],
      distancia_total = 99.12, tempo_total = 1.26, pedagogios_total = 15,
      ponto_anterior = campinas, nome_anterior = ''Campinas, SP''\<rparr>"

definition estado_2 :: estado where
  "estado_2 =
     \<lparr>rotas_calculadas = rotas exemplo_rota_info,
      distancia_total = 146.48, tempo_total = 1.93, pedagogios_total = 30,
      ponto_anterior = jundiai, nome_anterior = ''Jundiai, SP''\<rparr>"

definition exemplo_custos :: custos_info where
  "exemplo_custos =
     \<lparr>detalhamento =
        \<lparr>combustivel = 259.48, pedagio = 30, desgaste_veiculo = 65.92, motorista = 28.95,
         seguro = 10, taxa_entregas = 75, alimentacao = 16, pernoite = 0\<rparr>,
      parametros =
        \<lparr>consumo_medio_km_l = 3.5, preco_combustivel_litro = 6.2,
         valor_hora_motorista = 15, litros_necessarios = 41.85\<rparr>,
      resumo_dos_custos =
        \<lparr>custo_total = 485.34, custo_por_entrega = 161.78, custo_por_km = 3.31,
         valor_mercadorias = 11800, percentual_custo = 4.11\<rparr>,
      recomendacoes = [ExcelenteEficiencia, MonitorarCombustivel, ManterVeiculo]\<rparr>"

definition env_sem_chaves :: ambiente where
  "env_sem_chaves =
     \<lparr>openroute_key = [],
      tollguru_key = [],
      geocode_address = (\<lambda>a. if a = ''Sao Paulo, SP'' then Some sao_paulo else None),
      post_optimization = (\<lambda>o_c ds. RequestException),
      post_directions = (\<lambda>i p q. RequestException)\<rparr>"

definition env_rotas_falham :: ambiente where
  "env_rotas_falham =
     \<lparr>openroute_key = ''ors-key'',
      tollguru_key = [],
      geocode_address = (\<lambda>a. if a = ''Sao Paulo, SP'' then Some sao_paulo else None),
      post_optimization = (\<lambda>o_c ds. HttpResponse 200 (Some (JObj [(''code'', JNum 0)]))),
      post_directions = (\<lambda>i p q. HttpResponse 503 None)\<rparr>"

definition env_otimizacao_falha :: ambiente where
  "env_otimizacao_falha =
     \<lparr>openroute_key = ''ors-key'',
      tollguru_key = [],
      geocode_address = (\<lambda>a. if a = ''Sao Paulo, SP'' then Some sao_paulo else None),
      post_optimization = (\<lambda>o_c ds. HttpResponse 500 None),
      post_directions = (\<lambda>i p q. resposta_rota 99120 4536)\<rparr>"

definition nfe_3001 :: FiscalDocument where
  "nfe_3001 = \<lparr>tipo = ''NFE'', numero = ''3001'', destinatario = ''Grafica Aurora'',
     endereco_completo = ''Rua Sacramento, 210'', cidade = ''Campinas'', uf = ''SP, Brasil'',
     cep = ''13010210'', valor_total = 1200, peso_total = 60, coordenadas = Some campinas\<rparr>"

definition nfe_3002 :: FiscalDocument where
  "nfe_3002 = \<lparr>tipo = ''NFE'', numero = ''3002'', destinatario = ''Padaria Colina'',
     endereco_completo = ''Rua Petronilha Antunes, 77'', cidade = ''Campinas, SP'',
     uf = ''Brasil'', cep = ''13201070'', valor_total = 800, peso_total = 40,
     coordenadas = Some jundiai\<rparr>"

definition rota_colisao :: rota_info where
  "rota_colisao =
     \<lparr>rotas =
        [\<lparr>sequencia = 1, origem = ''Sao Paulo, SP'', destino = ''Campinas, SP, Brasil'',
          coordenadas_destino = campinas, distancia_km = 99.12, tempo_estimado_horas = 1.26,
          entregas = 2, documentos = [''3001'', ''3002''], valor_total_entregas = 2000,
          peso_total_entregas = 100,
          pedagios = \<lparr>valor_total_pedagios = 15, numero_pracas = 1, valor_medio = 15,
                      estimado = True\<rparr>\<rparr>],
      origem_coordenadas = sao_paulo,
      resumo =
        \<lparr>total_cidades = 1, total_entregas = 2, distancia_total_km = 99.12,
         tempo_total_horas = 1.26, tempo_total_dias = 0.2, custo_pedagogios_total = 15,
         api_utilizada = True\<rparr>\<rparr>"

definition ponto_norte :: coord where "ponto_norte = (51.0579, -32.3125)"

definition antipoda :: coord where "antipoda = (-51.0579, 147.6875)"

definition rota_vazia :: rota_info where
  "rota_vazia =
     \<lparr>rotas = [], origem_coordenadas = sao_paulo,
      resumo =
        \<lparr>total_cidades = 0, total_entregas = 0, distancia_total_km = 0,
         tempo_total_horas = 0, tempo_total_dias = 0, custo_pedagogios_total = 0,
         api_utilizada = False\<rparr>\<rparr>"

section \<open>Properties of the Distance Estimator\<close>

lemma sin_half_squared: "(sin (x / 2))\<^sup>2 = (1 - cos x) / 2" for x :: real
  using cos_double_sin [of "x / 2"] by simp

lemma half_one_plus_cos_nonneg: "0 \<le> (1 + cos t) / 2" for t :: real
proof -
  have "- 1 \<le> cos t" by (rule cos_ge_minus_one)
  then have "0 \<le> 1 + cos t" by linarith
  then show ?thesis by simp
qed

lemma haversine_a_expand:
  "haversine_a (p1, l1) (p2, l2) =
     (1 - cos (radians p2 - radians p1)) / 2
       + cos (radians p1) * cos (radians p2) * (sin ((radians l2 - radians l1) / 2))\<^sup>2"
  by (simp add: haversine_a_def Let_def sin_half_squared)

lemma scaled_between:
  fixes c s u :: real
  assumes s: "0 \<le> s" "s \<le> 1" and lo0: "0 \<le> u" and lo1: "0 \<le> u + c"
  shows "0 \<le> u + c * s"
proof (cases "0 \<le> c")
  case True
  then have "0 \<le> c * s" using s by simp
  then show ?thesis using lo0 by linarith
next
  case False
  then have "c * 1 \<le> c * s" using s by (intro mult_left_mono_neg) auto
  then show ?thesis using lo1 by linarith
qed

lemma haversine_a_nonneg: "0 \<le> haversine_a c1 c2"
proof -
  obtain p1 l1 p2 l2 where c: "c1 = (p1, l1)" "c2 = (p2, l2)"
    by (cases c1, cases c2) auto
  define x where "x = radians p1"
  define y where "y = radians p2"
  define s where "s = (sin ((radians l2 - radians l1) / 2))\<^sup>2"
  have s: "0 \<le> s" "s \<le> 1"
    unfolding s_def using abs_sin_le_one [of "(radians l2 - radians l1) / 2"]
    by (simp_all add: abs_square_le_1)
  have u: "0 \<le> (1 - cos (y - x)) / 2" by simp
  have eq: "(1 - cos (y - x)) / 2 + cos x * cos y = (1 + cos (x + y)) / 2"
    by (simp add: cos_add cos_diff field_simps)
  have v: "0 \<le> (1 - cos (y - x)) / 2 + cos x * cos y"
    unfolding eq by (rule half_one_plus_cos_nonneg)
  have "0 \<le> (1 - cos (y - x)) / 2 + (cos x * cos y) * s"
    by (rule scaled_between [OF s u v])
  then show ?thesis
    by (simp add: c haversine_a_expand x_def y_def s_def)
qed

lemma haversine_a_le_one: "haversine_a c1 c2 \<le> 1"
proof -
  obtain p1 l1 p2 l2 where c: "c1 = (p1, l1)" "c2 = (p2, l2)"
    by (cases c1, cases c2) auto
  define x where "x = radians p1"
  define y where "y = radians p2"
  define s where "s = (sin ((radians l2 - radians l1) / 2))\<^sup>2"
  have s: "0 \<le> s" "s \<le> 1"
    unfolding s_def using abs_sin_le_one [of "(radians l2 - radians l1) / 2"]
    by (simp_all add: abs_square_le_1)
  have u: "0 \<le> (1 + cos (y - x)) / 2"
    by (rule half_one_plus_cos_nonneg)
  have eq: "(1 + cos (y - x)) / 2 + (- (cos x * cos y)) = (1 - cos (x + y)) / 2"
    by (simp add: cos_add cos_diff field_simps)
  have v: "0 \<le> (1 + cos (y - x)) / 2 + (- (cos x * cos y))"
    unfolding eq by simp
  have "0 \<le> (1 + cos (y - x)) / 2 + (- (cos x * cos y)) * s"
    by (rule scaled_between [OF s u v])
  then have "(1 - cos (y - x)) / 2 + cos x * cos y * s \<le> 1"
    by (simp add: field_simps)
  then show ?thesis
    by (simp add: c haversine_a_expand x_def y_def s_def)
qed

text \<open>
  As a real number the argument \<open>a\<close> of the two square roots lies between 0 and 1, so
  on the exact value of \<open>a\<close> the Distance Estimator returns the closed formula. What
  it does on the value the machine holds in \<^verbatim>\<open>a\<close> is the subject of the section on
  antipodal points below.
\<close>

lemma haversine_returns:
  "calculate_haversine_distance c1 c2 = Inr (great_circle_km c1 c2)"
  using haversine_a_nonneg [of c1 c2] haversine_a_le_one [of c1 c2]
  by (simp add: calculate_haversine_distance_def great_circle_km_def py_sqrt_def Let_def)

lemma atan2_nonneg: "0 \<le> y \<Longrightarrow> 0 \<le> x \<Longrightarrow> 0 \<le> atan2 y x"
  by (auto simp: atan2_def)

lemma great_circle_km_nonneg: "0 \<le> great_circle_km c1 c2"
  unfolding great_circle_km_def
  using haversine_a_nonneg [of c1 c2] haversine_a_le_one [of c1 c2]
  by (intro mult_nonneg_nonneg atan2_nonneg) auto

lemma haversine_a_sym: "haversine_a c1 c2 = haversine_a c2 c1"
proof -
  have "\<And>u v :: real. (sin ((u - v) / 2))\<^sup>2 = (sin ((v - u) / 2))\<^sup>2"
  proof -
    fix u v :: real
    have "sin ((u - v) / 2) = - sin ((v - u) / 2)"
      by (metis minus_diff_eq minus_divide_left sin_minus)
    then show "(sin ((u - v) / 2))\<^sup>2 = (sin ((v - u) / 2))\<^sup>2" by simp
  qed
  then show ?thesis
    by (simp add: haversine_a_def Let_def mult.commute)
qed

lemma haversine_a_self: "haversine_a c c = 0"
  by (simp add: haversine_a_def Let_def)

text \<open>
  C7. The Distance Estimator is symmetric, and the distance from a point to itself is
  zero: the call returns (it does not raise) and the value is \<open>0\<close>.
\<close>

theorem haversine_symmetric_and_zero_on_diagonal:
  "calculate_haversine_distance A B = calculate_haversine_distance B A
   \<and> calculate_haversine_distance A A = Inr 0"
  by (simp add: calculate_haversine_distance_def haversine_a_sym [of A B] haversine_a_self
      py_sqrt_def atan2_def Let_def)

section \<open>Antipodal points\<close>

lemma calculate_haversine_distance_from:
  "calculate_haversine_distance coord1 coord2 = haversine_from_a (haversine_a coord1 coord2)"
  by (simp add: calculate_haversine_distance_def haversine_from_a_def Let_def)

lemma haversine_from_a_above_one: "1 < a \<Longrightarrow> haversine_from_a a = Inl ValueError"
  by (simp add: haversine_from_a_def py_sqrt_def)

lemma haversine_a_antipoda: "haversine_a ponto_norte antipoda = 1"
proof -
  have lon: "radians (147.6875) - radians (-32.3125) = pi"
    by (simp add: radians_def field_simps)
  have lat: "radians (-51.0579) = - radians 51.0579"
    by (simp add: radians_def)
  have "(sin ((- radians 51.0579 - radians 51.0579) / 2))\<^sup>2 = (sin (radians 51.0579))\<^sup>2"
  proof -
    have "(- radians 51.0579 - radians 51.0579) / 2 = - radians 51.0579" by simp
    then show ?thesis by simp
  qed
  then show ?thesis
    unfolding haversine_a_def Let_def ponto_norte_def antipoda_def fst_conv snd_conv lon lat
    by (simp add: power2_eq_square [symmetric] sin_squared_eq)
qed

text \<open>
  C6 does not hold of the code. The claim is right: a finite pair of coordinates should
  give a finite non-negative distance. For the two opposite points \<open>ponto_norte\<close> and
  \<open>antipoda\<close> the exact value of \<^verbatim>\<open>a\<close> is 1 and the machine computes
  \<open>1 + 2^-52\<close>; there \<^verbatim>\<open>sqrt(1 - a)\<close> raises \<^verbatim>\<open>ValueError\<close>. In general the
  estimator raises exactly when the value it holds in \<^verbatim>\<open>a\<close> is outside \<open>[0, 1]\<close>,
  and returns a non-negative distance otherwise; the code does not clamp \<^verbatim>\<open>a\<close>.
\<close>

theorem distance_estimator_raises_at_antipodes:
  "haversine_a ponto_norte antipoda = 1
   \<and> haversine_from_a (haversine_a ponto_norte antipoda + 1 / 2 ^ 52) = Inl ValueError
   \<and> (case haversine_from_a a of
         Inl e \<Rightarrow> e = ValueError \<and> (a < 0 \<or> 1 < a)
       | Inr distancia \<Rightarrow> 0 \<le> distancia \<and> 0 \<le> a \<and> a \<le> 1)
   \<and> calculate_haversine_distance coord1 coord2 = haversine_from_a (haversine_a coord1 coord2)"
proof (intro conjI)
  show "haversine_a ponto_norte antipoda = 1" by (rule haversine_a_antipoda)
  show "haversine_from_a (haversine_a ponto_norte antipoda + 1 / 2 ^ 52) = Inl ValueError"
    by (rule haversine_from_a_above_one) (simp add: haversine_a_antipoda)
  show "case haversine_from_a a of
          Inl e \<Rightarrow> e = ValueError \<and> (a < 0 \<or> 1 < a)
        | Inr distancia \<Rightarrow> 0 \<le> distancia \<and> 0 \<le> a \<and> a \<le> 1"
  proof (cases "0 \<le> a \<and> a \<le> 1")
    case True
    then have "0 \<le> atan2 (sqrt a) (sqrt (1 - a))"
      by (intro atan2_nonneg) auto
    then show ?thesis using True by (simp add: haversine_from_a_def py_sqrt_def)
  next
    case False
    then show ?thesis by (auto simp: haversine_from_a_def py_sqrt_def)
  qed
  show "calculate_haversine_distance coord1 coord2 = haversine_from_a (haversine_a coord1 coord2)"
    by (rule calculate_haversine_distance_from)
qed

section \<open>Short legs\<close>

text \<open>
  Two points whose coordinates differ by at most one degree (in the Euclidean norm of
  the differences) are less than 150 km apart, so the Toll Estimator counts one plaza
  for them. This is what makes the toll of a concrete short leg computable.
\<close>

lemma sin_sq_le: "(sin u)\<^sup>2 \<le> u\<^sup>2" for u :: real
  using abs_sin_x_le_abs_x [of u] by (simp add: abs_le_square_iff)

lemma cc: "cos (x::real) * cos y \<le> 1"
proof -
  have "\<bar>cos x * cos y\<bar> \<le> 1 * 1"
    unfolding abs_mult by (intro mult_mono) auto
  then show ?thesis by linarith
qed

lemma haversine_a_le_squares:
  "haversine_a p q \<le> (pi / 360)\<^sup>2 * ((fst q - fst p)\<^sup>2 + (snd q - snd p)\<^sup>2)"
proof -
  define u where "u = (radians (fst q) - radians (fst p)) / 2"
  define v where "v = (radians (snd q) - radians (snd p)) / 2"
  define c where "c = cos (radians (fst p)) * cos (radians (fst q))"
  have su: "(sin u)\<^sup>2 \<le> u\<^sup>2" by (rule sin_sq_le)
  have sv: "(sin v)\<^sup>2 \<le> v\<^sup>2" by (rule sin_sq_le)
  have "c \<le> 1" unfolding c_def by (rule cc)
  then have "c * (sin v)\<^sup>2 \<le> 1 * (sin v)\<^sup>2"
    by (intro mult_right_mono) auto
  then have le: "(sin u)\<^sup>2 + c * (sin v)\<^sup>2 \<le> u\<^sup>2 + v\<^sup>2"
    using su sv by linarith
  have ueq: "u = (pi / 360) * (fst q - fst p)"
    by (simp add: u_def radians_def field_simps)
  have veq: "v = (pi / 360) * (snd q - snd p)"
    by (simp add: v_def radians_def field_simps)
  have "haversine_a p q = (sin u)\<^sup>2 + c * (sin v)\<^sup>2"
    by (simp add: haversine_a_def Let_def u_def v_def c_def)
  also note le
  also have "u\<^sup>2 + v\<^sup>2 = (pi / 360)\<^sup>2 * ((fst q - fst p)\<^sup>2 + (snd q - snd p)\<^sup>2)"
    unfolding ueq veq by (simp only: power_mult_distrib distrib_left)
  finally show ?thesis .
qed

lemma arctan_le_self:
  fixes x :: real
  assumes "0 \<le> x"
  shows "arctan x \<le> x"
proof -
  have "arctan x - x \<le> arctan 0 - 0"
  proof (rule DERIV_nonpos_imp_nonincreasing [of 0 x "\<lambda>t. arctan t - t"])
    show "0 \<le> x" by fact
  next
    fix t :: real
    have "((\<lambda>t. arctan t - t) has_real_derivative (1 / (1 + t\<^sup>2) - 1)) (at t)"
      by (auto intro!: derivative_eq_intros simp: inverse_eq_divide)
    moreover have "1 / (1 + t\<^sup>2) - 1 \<le> 0"
    proof -
      have "0 < 1 + t\<^sup>2" by (simp add: add_pos_nonneg)
      then show ?thesis by (simp add: divide_le_eq_1)
    qed
    ultimately show "\<exists>y. ((\<lambda>t. arctan t - t) has_real_derivative y) (at t) \<and> y \<le> 0"
      by blast
  qed
  then show ?thesis by simp
qed

lemma haversine_a_small:
  assumes near: "(fst q - fst p)\<^sup>2 + (snd q - snd p)\<^sup>2 \<le> 1"
  shows "haversine_a p q \<le> 1 / 8100"
proof -
  have "pi / 360 \<le> 4 / 360" using pi_less_4 by simp
  moreover have "0 \<le> pi / 360" using pi_gt_zero by simp
  ultimately have "(pi / 360)\<^sup>2 \<le> (4 / 360)\<^sup>2" by (rule power_mono)
  then have k: "(pi / 360)\<^sup>2 \<le> 1 / 8100" by (simp add: power2_eq_square)
  have "haversine_a p q \<le> (pi / 360)\<^sup>2 * ((fst q - fst p)\<^sup>2 + (snd q - snd p)\<^sup>2)"
    by (rule haversine_a_le_squares)
  also have "\<dots> \<le> (pi / 360)\<^sup>2 * 1"
    using near by (intro mult_left_mono) auto
  also have "\<dots> \<le> 1 / 8100" using k by simp
  finally show ?thesis .
qed

lemma short_hop:
  assumes near: "(fst q - fst p)\<^sup>2 + (snd q - snd p)\<^sup>2 \<le> 1"
  shows "great_circle_km p q < 150"
proof -
  define a where "a = haversine_a p q"
  have a0: "0 \<le> a" unfolding a_def by (rule haversine_a_nonneg)
  have a1: "a \<le> 1 / 8100" unfolding a_def using near by (rule haversine_a_small)
  have "a \<le> (1 / 90)\<^sup>2" using a1 by (simp add: power2_eq_square)
  then have s1: "sqrt a \<le> 1 / 90" by (intro real_le_lsqrt) auto
  have "(99 / 100)\<^sup>2 \<le> 1 - a" using a1 by (simp add: power2_eq_square)
  then have s2: "99 / 100 \<le> sqrt (1 - a)" by (rule real_le_rsqrt)
  have s0: "0 \<le> sqrt a" using a0 by simp
  have s3: "0 \<le> sqrt (1 - a)" using s2 by linarith
  have r: "sqrt a / sqrt (1 - a) \<le> (1 / 90) / (99 / 100)"
    using s0 s1 s2 by (intro frac_le) auto
  have "0 \<le> sqrt a / sqrt (1 - a)"
    by (rule divide_nonneg_nonneg [OF s0 s3])
  then have "arctan (sqrt a / sqrt (1 - a)) \<le> sqrt a / sqrt (1 - a)"
    by (rule arctan_le_self)
  then have b: "arctan (sqrt a / sqrt (1 - a)) \<le> (1 / 90) / (99 / 100)"
    using r by (rule order_trans)
  have "0 < sqrt (1 - a)" using s2 by linarith
  then have "atan2 (sqrt a) (sqrt (1 - a)) = arctan (sqrt a / sqrt (1 - a))"
    by (simp only: atan2_def if_True)
  then have "great_circle_km p q = 6371 * (2 * arctan (sqrt a / sqrt (1 - a)))"
    by (simp only: great_circle_km_def a_def)
  moreover have "arctan (sqrt a / sqrt (1 - a)) \<le> 10 / 891" using b by simp
  ultimately show ?thesis by linarith
qed

lemma short_hop_one_plaza:
  assumes near: "(fst q - fst p)\<^sup>2 + (snd q - snd p)\<^sup>2 \<le> 1"
  shows "max 1 \<lfloor>great_circle_km p q / 150\<rfloor> = 1"
proof -
  have "great_circle_km p q / 150 < 1"
    using short_hop [OF near] by simp
  then have "\<lfloor>great_circle_km p q / 150\<rfloor> < 1" by (simp add: floor_less_iff)
  then show ?thesis by simp
qed

section \<open>Properties of the Toll Estimator\<close>

lemma estimate_tolls_returns:
  "estimate_tolls k p q =
     Inr \<lparr>valor_total_pedagios = py_round (of_int (max 1 \<lfloor>great_circle_km p q / 150\<rfloor>) * 15) 2,
          numero_pracas = max 1 \<lfloor>great_circle_km p q / 150\<rfloor>,
          valor_medio = 15, estimado = True\<rparr>"
  using haversine_a_nonneg [of p q] haversine_a_le_one [of p q] great_circle_km_nonneg [of p q]
  by (simp add: estimate_tolls_def py_sqrt_def Let_def py_int_def great_circle_km_def)

lemma estimate_tolls_from_a:
  "estimate_tolls k p q = estimate_tolls_from k (haversine_a p q)"
  by (simp add: estimate_tolls_def estimate_tolls_from_def Let_def)

lemma estimate_tolls_from_closed_form:
  "estimate_tolls_from k a =
     (case haversine_from_a a of
        Inl e \<Rightarrow> Inl e
      | Inr distancia \<Rightarrow>
          Inr \<lparr>valor_total_pedagios = py_round (of_int (max 1 (py_int (distancia / 150))) * 15) 2,
               numero_pracas = max 1 (py_int (distancia / 150)),
               valor_medio = 15,
               estimado = True\<rparr>)"
  by (simp add: estimate_tolls_from_def haversine_from_a_def py_sqrt_def Let_def)

lemma calculate_route_tolls_from_estimate:
  "calculate_route_tolls_from api_key a = estimate_tolls_from k a"
  by (simp add: calculate_route_tolls_from_def estimate_tolls_from_closed_form
      split: sum.splits)

text \<open>
  C2 does not hold of the code. The claim is right about everything the Toll Estimator
  returns: the plaza count is \<open>max 1 (int (d / 150))\<close> for the distance \<open>d\<close> that the
  Distance Estimator computes from the same value of \<^verbatim>\<open>a\<close> (\<^verbatim>\<open>int\<close> is the floor,
  \<open>d\<close> being non-negative), the total is the count times 15.0 rounded to 2 decimals,
  the flag is set, and neither the credential nor the per-km rate
  \<^verbatim>\<open>valor_pedagio_por_km\<close> changes the result. But the estimator does not return for
  every pair: its inline haversine is the formula of the Distance Estimator, with the
  same unclamped \<^verbatim>\<open>a\<close>, and for \<open>ponto_norte\<close> and \<open>antipoda\<close> it raises
  \<^verbatim>\<open>ValueError\<close>, with or without a credential.
\<close>

theorem toll_estimator_raises_at_antipodes:
  "calculate_route_tolls_from api_key (haversine_a ponto_norte antipoda + 1 / 2 ^ 52)
     = Inl ValueError
   \<and> calculate_route_tolls_from api_key a =
       (case haversine_from_a a of
          Inl e \<Rightarrow> Inl e
        | Inr distancia \<Rightarrow>
            Inr \<lparr>valor_total_pedagios =
                   py_round (of_int (max 1 (py_int (distancia / 150))) * 15) 2,
                 numero_pracas = max 1 (py_int (distancia / 150)),
                 valor_medio = 15,
                 estimado = True\<rparr>)
   \<and> estimate_tolls_from valor_pedagio_por_km a = calculate_route_tolls_from api_key a
   \<and> calculate_route_tolls api_key origem_coords destino_coords
       = calculate_route_tolls_from api_key (haversine_a origem_coords destino_coords)"
proof (intro conjI)
  show "calculate_route_tolls_from api_key (haversine_a ponto_norte antipoda + 1 / 2 ^ 52)
      = Inl ValueError"
    unfolding calculate_route_tolls_from_estimate [of _ _ 0] estimate_tolls_from_closed_form
    by (simp add: haversine_from_a_above_one haversine_a_antipoda)
  show "calculate_route_tolls_from api_key a =
       (case haversine_from_a a of
          Inl e \<Rightarrow> Inl e
        | Inr distancia \<Rightarrow>
            Inr \<lparr>valor_total_pedagios =
                   py_round (of_int (max 1 (py_int (distancia / 150))) * 15) 2,
                 numero_pracas = max 1 (py_int (distancia / 150)),
                 valor_medio = 15,
                 estimado = True\<rparr>)"
    unfolding calculate_route_tolls_from_estimate [of _ _ 0] estimate_tolls_from_closed_form
    by simp
  show "estimate_tolls_from valor_pedagio_por_km a = calculate_route_tolls_from api_key a"
    by (rule calculate_route_tolls_from_estimate [symmetric])
  show "calculate_route_tolls api_key origem_coords destino_coords
       = calculate_route_tolls_from api_key (haversine_a origem_coords destino_coords)"
    by (simp add: calculate_route_tolls_def calculate_route_tolls_from_def
        estimate_tolls_by_distance_def estimate_tolls_from_a split: sum.splits)
qed

section \<open>Rounding\<close>

lemma round_half_even_close: "\<bar>of_int (round_half_even x) - x\<bar> \<le> 1 / 2"
  unfolding round_half_even_def Let_def
  by (auto simp: abs_le_iff)

lemma py_round_close2: "\<bar>py_round x 2 - x\<bar> \<le> 1 / 200"
proof -
  have "\<bar>of_int (round_half_even (x * 100)) - x * 100\<bar> \<le> 1 / 2"
    by (rule round_half_even_close)
  then have "\<bar>(of_int (round_half_even (x * 100)) - x * 100) / 100\<bar> \<le> (1 / 2) / 100"
    by (simp only: abs_divide) (simp add: divide_right_mono)
  then show ?thesis
    by (simp add: py_round_def diff_divide_distrib)
qed

lemma py_round_bounds2: "x - 1 / 200 \<le> py_round x 2" "py_round x 2 \<le> x + 1 / 200"
  using py_round_close2 [of x] by linarith+

lemma py_round_scaled: "py_round x n * 10 ^ n = of_int (round_half_even (x * 10 ^ n))"
  by (simp add: py_round_def)

text \<open>\<open>py_round\<close> rounds in the sense of \<open>arredondado\<close>, whatever it does on a tie.\<close>

lemma arredondado_py_round: "arredondado n x (py_round x n)"
proof -
  have "\<bar>py_round x n - x\<bar> * (2 * 10 ^ n) = 2 * \<bar>(py_round x n - x) * 10 ^ n\<bar>"
    by (simp add: abs_mult)
  also have "(py_round x n - x) * 10 ^ n = of_int (round_half_even (x * 10 ^ n)) - x * 10 ^ n"
    by (simp only: left_diff_distrib py_round_scaled)
  also have "2 * \<bar>of_int (round_half_even (x * 10 ^ n)) - x * 10 ^ n\<bar> \<le> 1"
    using round_half_even_close [of "x * 10 ^ n"] by simp
  finally have close: "\<bar>py_round x n - x\<bar> * (2 * 10 ^ n) \<le> 1" .
  have "py_round x n * 10 ^ n = of_int \<lfloor>py_round x n * 10 ^ n\<rfloor>"
    by (simp only: py_round_scaled floor_of_int)
  then show ?thesis using close by (simp only: arredondado_def simp_thms)
qed

lemma py_round_close1: "\<bar>py_round x 1 - x\<bar> \<le> 1 / 20"
  using arredondado_py_round [of 1 x] by (simp add: arredondado_def)

section \<open>Properties of the Delivery Grouper\<close>

lemma chave_local_rotulo: "chave_local doc = rotulo (par_local doc)"
  by (simp add: chave_local_def rotulo_def par_local_def)

lemma set_first_seen: "set (first_seen xs) = set xs"
  by (induction xs) auto

lemma first_seen_map_inj:
  "inj_on f (set xs) \<Longrightarrow> first_seen (map f xs) = map f (first_seen xs)"
proof (induction xs)
  case Nil
  then show ?case by simp
next
  case (Cons x xs)
  have inj: "inj_on f (set xs)" using Cons.prems by (simp add: inj_on_def)
  have same: "filter (\<lambda>y. f y \<noteq> f x) (first_seen xs) = filter (\<lambda>y. y \<noteq> x) (first_seen xs)"
  proof (rule filter_cong [OF refl])
    fix y assume "y \<in> set (first_seen xs)"
    then have "y \<in> set xs" by (simp add: set_first_seen)
    then show "(f y \<noteq> f x) = (y \<noteq> x)"
      using Cons.prems by (auto simp: inj_on_def)
  qed
  show ?case
    using Cons.IH [OF inj] same by (simp add: filter_map o_def)
qed

lemma agrupar_documento_keys:
  "map fst (fst (agrupar_documento (d, cs) doc)) =
     (if coordenadas doc = None \<or> chave_local doc \<in> set (map fst d) then map fst d
      else map fst d @ [chave_local doc])"
  by (auto simp: agrupar_documento_def Let_def case_prod_unfold o_def split: option.splits)

lemma foldl_keys:
  "map fst (fst (foldl agrupar_documento (d, cs) docs)) =
     map fst d @ filter (\<lambda>k. k \<notin> set (map fst d))
        (first_seen (map chave_local (filter (\<lambda>doc. coordenadas doc \<noteq> None) docs)))"
proof (induction docs arbitrary: d cs)
  case Nil
  then show ?case by simp
next
  case (Cons doc docs)
  obtain d' cs' where st: "agrupar_documento (d, cs) doc = (d', cs')"
    by (cases "agrupar_documento (d, cs) doc")
  have keys: "map fst d' =
     (if coordenadas doc = None \<or> chave_local doc \<in> set (map fst d) then map fst d
      else map fst d @ [chave_local doc])"
    using agrupar_documento_keys [of d cs doc] st by simp
  show ?case
  proof (cases "coordenadas doc = None")
    case True
    then show ?thesis using Cons.IH [of d' cs'] st keys by simp
  next
    case False
    show ?thesis
    proof (cases "chave_local doc \<in> set (map fst d)")
      case True
      then show ?thesis using Cons.IH [of d' cs'] st keys False
        by (auto simp del: not_None_eq intro!: filter_cong)
    next
      case notin: False
      then show ?thesis using Cons.IH [of d' cs'] st keys False
        by (auto simp del: not_None_eq intro!: filter_cong)
    qed
  qed
qed

lemma agrupar_keys:
  "map fst (fst (agrupar docs)) =
     first_seen (map chave_local (filter (\<lambda>doc. coordenadas doc \<noteq> None) docs))"
  by (simp add: agrupar_def foldl_keys)

lemma map_of_map_at:
  "map_of (map (\<lambda>(k, v). if k = c then (k, f v) else (k, v)) xs) k' =
     (if k' = c then map_option f (map_of xs k') else map_of xs k')"
  by (induction xs) auto

lemma agrupar_documento_lookup:
  "map_of (fst (agrupar_documento (d, cs) doc)) k =
     (case coordenadas doc of
        None \<Rightarrow> map_of d k
      | Some c \<Rightarrow>
          if k = chave_local doc
          then Some (case map_of d k of
                       None \<Rightarrow> \<lparr>info_documentos = [doc], info_coordenadas = c\<rparr>
                     | Some info \<Rightarrow> info\<lparr>info_documentos := info_documentos info @ [doc]\<rparr>)
          else map_of d k)"
proof (cases "coordenadas doc")
  case None
  then show ?thesis by (simp add: agrupar_documento_def)
next
  case (Some c)
  show ?thesis
  proof (cases "chave_local doc \<in> set (map fst d)")
    case True
    then obtain info where "map_of d (chave_local doc) = Some info"
      by (metis map_of_eq_None_iff not_None_eq set_map)
    then show ?thesis using Some True
      by (simp add: agrupar_documento_def Let_def map_of_map_at)
  next
    case False
    then have "map_of d (chave_local doc) = None"
      by (simp add: map_of_eq_None_iff)
    then show ?thesis using Some False
      by (auto simp add: agrupar_documento_def Let_def map_of_map_at map_add_def
          simp del: map_append split: option.splits)
  qed
qed

lemma agrupar_documento_distinct:
  "distinct (map fst d) \<Longrightarrow> distinct (map fst (fst (agrupar_documento (d, cs) doc)))"
  by (simp add: agrupar_documento_keys)

lemma foldl_distinct:
  "distinct (map fst d) \<Longrightarrow> distinct (map fst (fst (foldl agrupar_documento (d, cs) docs)))"
proof (induction docs arbitrary: d cs)
  case Nil
  then show ?case by simp
next
  case (Cons doc docs)
  obtain d' cs' where st: "agrupar_documento (d, cs) doc = (d', cs')"
    by (cases "agrupar_documento (d, cs) doc")
  have "distinct (map fst d')"
    using agrupar_documento_distinct [OF Cons.prems, of cs doc] st by simp
  then show ?case using Cons.IH [of d' cs'] st by simp
qed

lemma agrupar_distinct: "distinct (map fst (fst (agrupar docs)))"
  by (simp add: agrupar_def foldl_distinct)

lemma foldl_documentos:
  "map_option info_documentos (map_of (fst (foldl agrupar_documento (d, cs) docs)) k) =
     (case map_of d k of
        Some i0 \<Rightarrow> Some (info_documentos i0 @ docs_of k docs)
      | None \<Rightarrow> if docs_of k docs = [] then None else Some (docs_of k docs))"
proof (induction docs arbitrary: d cs)
  case Nil
  then show ?case by (simp add: docs_of_def split: option.splits)
next
  case (Cons doc docs)
  obtain d' cs' where st: "agrupar_documento (d, cs) doc = (d', cs')"
    by (cases "agrupar_documento (d, cs) doc")
  have look: "map_of d' k =
     (case coordenadas doc of
        None \<Rightarrow> map_of d k
      | Some c \<Rightarrow>
          if k = chave_local doc
          then Some (case map_of d k of
                       None \<Rightarrow> \<lparr>info_documentos = [doc], info_coordenadas = c\<rparr>
                     | Some info \<Rightarrow> info\<lparr>info_documentos := info_documentos info @ [doc]\<rparr>)
          else map_of d k)"
    using agrupar_documento_lookup [of d cs doc k] st by simp
  have "map_option info_documentos (map_of (fst (foldl agrupar_documento (d', cs') docs)) k) =
     (case map_of d' k of
        Some i0 \<Rightarrow> Some (info_documentos i0 @ docs_of k docs)
      | None \<Rightarrow> if docs_of k docs = [] then None else Some (docs_of k docs))"
    by (rule Cons.IH)
  then show ?case
    using st look by (auto simp: docs_of_def split: option.splits)
qed

lemma agrupar_documentos:
  assumes "(k, info) \<in> set (fst (agrupar docs))"
  shows "info_documentos info = docs_of k docs"
proof -
  have "map_of (fst (agrupar docs)) k = Some info"
    using assms agrupar_distinct [of docs] by simp
  then show ?thesis
    using foldl_documentos [of "[]" "[]" docs k]
    by (simp add: agrupar_def split: if_splits)
qed

lemma n_entregas_append: "n_entregas (xs @ ys) = n_entregas xs + n_entregas ys"
  by (simp add: n_entregas_def)

lemma n_entregas_add_documento:
  "distinct (map fst xs) \<Longrightarrow>
   n_entregas (map (\<lambda>(k, info).
                  if k = c then (k, info\<lparr>info_documentos := info_documentos info @ [doc]\<rparr>)
                  else (k, info)) xs) =
     n_entregas xs + (if c \<in> set (map fst xs) then 1 else 0)"
proof (induction xs)
  case Nil
  then show ?case by (simp add: n_entregas_def)
next
  case (Cons x xs)
  obtain k info where x: "x = (k, info)" by (cases x)
  show ?case using Cons x by (auto simp: n_entregas_def)
qed

lemma n_entregas_agrupar_documento:
  assumes "distinct (map fst d)"
  shows "n_entregas (fst (agrupar_documento (d, cs) doc)) =
     n_entregas d + (if coordenadas doc = None then 0 else 1)"
proof (cases "coordenadas doc")
  case None
  then show ?thesis by (simp add: agrupar_documento_def)
next
  case (Some c)
  define com_chave where "com_chave =
     (if chave_local doc \<in> set (map fst d) then d
      else d @ [(chave_local doc, \<lparr>info_documentos = [], info_coordenadas = c\<rparr>)])"
  have dist: "distinct (map fst com_chave)" using assms by (simp add: com_chave_def)
  have mem: "chave_local doc \<in> set (map fst com_chave)" by (simp add: com_chave_def)
  have same: "n_entregas com_chave = n_entregas d"
    by (simp add: com_chave_def n_entregas_append) (simp add: n_entregas_def)
  have "fst (agrupar_documento (d, cs) doc) =
      map (\<lambda>(k, info).
             if k = chave_local doc
             then (k, info\<lparr>info_documentos := info_documentos info @ [doc]\<rparr>)
             else (k, info)) com_chave"
    using Some by (simp add: agrupar_documento_def Let_def com_chave_def)
  then show ?thesis
    using n_entregas_add_documento [OF dist, of "chave_local doc" doc] mem same Some by simp
qed

lemma n_entregas_foldl:
  "distinct (map fst d) \<Longrightarrow>
   n_entregas (fst (foldl agrupar_documento (d, cs) docs)) =
     n_entregas d + length (filter (\<lambda>doc. coordenadas doc \<noteq> None) docs)"
proof (induction docs arbitrary: d cs)
  case Nil
  then show ?case by simp
next
  case (Cons doc docs)
  obtain d' cs' where st: "agrupar_documento (d, cs) doc = (d', cs')"
    by (cases "agrupar_documento (d, cs) doc")
  have dist: "distinct (map fst d')"
    using agrupar_documento_distinct [OF Cons.prems, of cs doc] st by simp
  have n: "n_entregas d' = n_entregas d + (if coordenadas doc = None then 0 else 1)"
    using n_entregas_agrupar_documento [OF Cons.prems, of cs doc] st by simp
  show ?case using Cons.IH [OF dist, of cs'] st n by simp
qed

lemma n_entregas_agrupar:
  "n_entregas (fst (agrupar docs)) = length (filter (\<lambda>doc. coordenadas doc \<noteq> None) docs)"
  using n_entregas_foldl [of "[]" "[]" docs] by (simp add: agrupar_def n_entregas_def)

section \<open>Properties of the leg loop\<close>

lemma distancia_tempo_returns:
  "distancia_tempo (openroute_key env) (post_directions env i) p q = Inr (metricas env i p q)"
  by (simp add: distancia_tempo_def metricas_def haversine_returns split: option.splits)

lemma calculate_route_tolls_returns:
  "calculate_route_tolls api_key p q = Inr (pedagio_estimado p q)"
  by (simp add: calculate_route_tolls_def estimate_tolls_by_distance_def estimate_tolls_returns
      pedagio_estimado_def)

lemma trecho_returns:
  "map_of d k = Some info \<Longrightarrow> trecho env d i k st = Inr (avancar env i k info st)"
  by (simp add: trecho_def Let_def distancia_tempo_returns calculate_route_tolls_returns
      avancar_def montar_rota_def split: prod.splits)

lemma percorrer_returns:
  "(\<And>k info. (k, info) \<in> set items \<Longrightarrow> map_of d k = Some info)
   \<Longrightarrow> percorrer env d i (map fst items) st = Inr (avancar_todos env i items st)"
proof (induction items arbitrary: i st)
  case Nil
  then show ?case by simp
next
  case (Cons item items)
  obtain k info where item: "item = (k, info)" by (cases item)
  have "map_of d k = Some info" using Cons.prems [of k info] item by simp
  then have "trecho env d i k st = Inr (avancar env i k info st)"
    by (rule trecho_returns)
  moreover have "percorrer env d (Suc i) (map fst items) (avancar env i k info st) =
      Inr (avancar_todos env (Suc i) items (avancar env i k info st))"
    using Cons.prems by (intro Cons.IH) auto
  ultimately show ?case using item by simp
qed

lemma avancar_todos_rotas:
  "rotas_calculadas (avancar_todos env i items st) =
     rotas_calculadas st @ trechos env i (nome_anterior st) (ponto_anterior st) items"
proof (induction items arbitrary: i st)
  case Nil
  then show ?case by simp
next
  case (Cons item items)
  obtain k info where item: "item = (k, info)" by (cases item)
  show ?case using Cons.IH [of "Suc i" "avancar env i k info st"] item
    by (simp add: avancar_def)
qed

lemma rotas_individuais_returns:
  assumes "distinct (map fst d)"
  shows "rotas_individuais env d oc nome =
     Inr (avancar_todos env 0 d
            \<lparr>rotas_calculadas = [], distancia_total = 0, tempo_total = 0,
             pedagogios_total = 0, ponto_anterior = oc, nome_anterior = nome\<rparr>)"
  unfolding rotas_individuais_def Let_def
  by (rule percorrer_returns) (use assms in simp)

lemma length_trechos: "length (trechos env i nome ponto items) = length items"
  by (induction env i nome ponto items rule: trechos.induct) auto


lemma rotas_individuais_agrupar:
  "rotas_individuais env (fst (agrupar docs)) oc e =
     Inr (avancar_todos env 0 (fst (agrupar docs)) (estado_inicial oc e))"
  unfolding estado_inicial_def
  by (rule rotas_individuais_returns) (rule agrupar_distinct)

lemma calculate_optimized_route_returns:
  "geocode_address env e = Some oc \<Longrightarrow>
   calculate_optimized_route env docs e = Inr (Some (resultado env docs e oc))"
  by (simp add: calculate_optimized_route_def Let_def rotas_individuais_agrupar resultado_def)

lemma rotas_resultado:
  "rotas (resultado env docs e oc) = trechos env 0 e oc (fst (agrupar docs))"
  by (simp add: resultado_def Let_def avancar_todos_rotas estado_inicial_def)

lemma map_destino_trechos: "map destino (trechos env i nome ponto items) = map fst items"
  by (induction env i nome ponto items rule: trechos.induct) (auto simp: montar_rota_def)


lemma calculate_optimized_route_result:
  assumes "calculate_optimized_route env docs e = Inr (Some info)"
  shows "\<exists>oc. geocode_address env e = Some oc \<and> info = resultado env docs e oc"
proof (cases "geocode_address env e")
  case None
  then show ?thesis using assms by (simp add: calculate_optimized_route_def)
next
  case (Some oc)
  then show ?thesis
    using assms calculate_optimized_route_returns [OF Some, of docs] by simp
qed

section \<open>Properties of the Route Sequencer\<close>

lemma resumo_resultado_counts:
  "total_entregas (resumo (resultado env docs e oc)) =
     length (filter (\<lambda>doc. coordenadas doc \<noteq> None) docs)"
  "total_cidades (resumo (resultado env docs e oc)) = length (rotas (resultado env docs e oc))"
  using n_entregas_agrupar [of docs]
  by (simp_all add: resultado_def Let_def n_entregas_def rotas_resultado length_trechos
      avancar_todos_rotas estado_inicial_def)


lemma trechos_member:
  "r \<in> set (trechos env i nome ponto items) \<Longrightarrow>
   \<exists>info. (destino r, info) \<in> set items
     \<and> documentos r = map numero (info_documentos info)
     \<and> entregas r = length (info_documentos info)
     \<and> valor_total_entregas r = sum_list (map valor_total (info_documentos info))
     \<and> peso_total_entregas r = sum_list (map peso_total (info_documentos info))"
  by (induction env i nome ponto items rule: trechos.induct) (auto simp: montar_rota_def)

lemma map_documentos_trechos:
  "map documentos (trechos env i nome ponto items) =
     map (\<lambda>(k, info). map numero (info_documentos info)) items"
  by (induction env i nome ponto items rule: trechos.induct) (auto simp: montar_rota_def)

text \<open>
  C4, amended. The key of a group is the string \<^verbatim>\<open>f"{cidade}, {uf}"\<close>, not the
  (city, region) pair. In every result of a routing run the destinations of the legs
  are the key strings of the records with coordinates, each once, in the order of
  first occurrence; when no two different (city, region) pairs of these records give
  the same key string, this is the first-seen order of the pairs themselves. The
  documents and the delivery count of a leg are those of the records with coordinates
  that have the leg's key string, so a record without coordinates is in no leg; the
  summary counts one city per leg and one delivery per record with coordinates. Every
  other run on the same batch and origin that returns a result has the same
  destinations and the same documents, leg by leg: whatever the optimization request
  (or any other request) answers, and whether or not a credential is configured.
\<close>

theorem legs_in_first_seen_order_of_key_strings:
  assumes run: "calculate_optimized_route env docs endereco = Inr (Some info)"
  shows "map destino (rotas info) = first_seen (map chave_local (com_coordenadas docs))
     \<and> (inj_on rotulo (set (map par_local (com_coordenadas docs))) \<longrightarrow>
          map destino (rotas info)
            = map rotulo (first_seen (map par_local (com_coordenadas docs))))
     \<and> (\<forall>r \<in> set (rotas info).
           documentos r
             = map numero (filter (\<lambda>doc. chave_local doc = destino r) (com_coordenadas docs))
           \<and> entregas r
             = length (filter (\<lambda>doc. chave_local doc = destino r) (com_coordenadas docs)))
     \<and> total_cidades (resumo info) = length (rotas info)
     \<and> total_entregas (resumo info) = length (com_coordenadas docs)
     \<and> (\<forall>env' info'. calculate_optimized_route env' docs endereco = Inr (Some info') \<longrightarrow>
           map destino (rotas info') = map destino (rotas info)
           \<and> map documentos (rotas info') = map documentos (rotas info))"
proof -
  obtain oc where info: "info = resultado env docs endereco oc"
    using calculate_optimized_route_result [OF run] by blast
  define d where "d = fst (agrupar docs)"
  define rs where "rs = trechos env 0 endereco oc d"
  have rs: "rotas info = rs"
    by (simp add: info rotas_resultado rs_def d_def)
  have order: "map destino rs = first_seen (map chave_local (com_coordenadas docs))"
    by (simp only: rs_def map_destino_trechos d_def agrupar_keys com_coordenadas_def)
  have pairs: "map destino rs = map rotulo (first_seen (map par_local (com_coordenadas docs)))"
    if inj: "inj_on rotulo (set (map par_local (com_coordenadas docs)))"
  proof -
    have eq: "map chave_local (com_coordenadas docs)
        = map rotulo (map par_local (com_coordenadas docs))"
      by (simp add: chave_local_rotulo)
    show ?thesis
      unfolding order eq by (rule first_seen_map_inj [OF inj])
  qed
  have groups: "\<forall>r \<in> set rs.
      documentos r
        = map numero (filter (\<lambda>doc. chave_local doc = destino r) (com_coordenadas docs))
      \<and> entregas r
        = length (filter (\<lambda>doc. chave_local doc = destino r) (com_coordenadas docs))"
  proof
    fix r assume "r \<in> set rs"
    then obtain i where i: "(destino r, i) \<in> set d"
        "documentos r = map numero (info_documentos i)"
        "entregas r = length (info_documentos i)"
      unfolding rs_def using trechos_member by blast
    have "info_documentos i = docs_of (destino r) docs"
      using i(1) unfolding d_def by (rule agrupar_documentos)
    also have "\<dots> = filter (\<lambda>doc. chave_local doc = destino r) (com_coordenadas docs)"
      by (simp add: docs_of_def com_coordenadas_def conj_commute)
    finally show "documentos r
        = map numero (filter (\<lambda>doc. chave_local doc = destino r) (com_coordenadas docs))
      \<and> entregas r
        = length (filter (\<lambda>doc. chave_local doc = destino r) (com_coordenadas docs))"
      using i(2,3) by simp
  qed
  have other: "map destino (rotas info') = map destino rs
         \<and> map documentos (rotas info') = map documentos rs"
    if r: "calculate_optimized_route env' docs endereco = Inr (Some info')" for env' info'
  proof -
    obtain oc' where "info' = resultado env' docs endereco oc'"
      using calculate_optimized_route_result [OF r] by blast
    then show ?thesis
      by (simp only: rotas_resultado rs_def d_def map_destino_trechos map_documentos_trechos
          simp_thms)
  qed
  have cities: "total_cidades (resumo info) = length rs"
    unfolding rs [symmetric] info by (rule resumo_resultado_counts)
  have deliveries: "total_entregas (resumo info) = length (com_coordenadas docs)"
    unfolding info com_coordenadas_def by (rule resumo_resultado_counts)
  from order pairs groups cities deliveries other show ?thesis
    unfolding rs by blast
qed

section \<open>The worked batch, evaluated\<close>

lemma agrupar_lote:
  "agrupar lote =
     ([(''Campinas, SP'', \<lparr>info_documentos = [nfe_1001, nfe_1002], info_coordenadas = campinas\<rparr>),
       (''Jundiai, SP'', \<lparr>info_documentos = [nfe_1003], info_coordenadas = jundiai\<rparr>)],
      [campinas, jundiai])"
  by (simp add: agrupar_def lote_def agrupar_documento_def chave_local_def Let_def
      nfe_1001_def nfe_1002_def nfe_1003_def cte_2001_def campinas_def jundiai_def)

lemma pedagio_sp_campinas:
  "pedagio_estimado sao_paulo campinas =
     \<lparr>valor_total_pedagios = 15, numero_pracas = 1, valor_medio = 15, estimado = True\<rparr>"
proof -
  have "(fst campinas - fst sao_paulo)\<^sup>2 + (snd campinas - snd sao_paulo)\<^sup>2 \<le> 1"
    by (simp add: campinas_def sao_paulo_def power2_eq_square)
  then have "max 1 \<lfloor>great_circle_km sao_paulo campinas / 150\<rfloor> = 1"
    by (rule short_hop_one_plaza)
  then show ?thesis
    by (simp add: pedagio_estimado_def py_round_def round_half_even_def)
qed

lemma pedagio_campinas_jundiai:
  "pedagio_estimado campinas jundiai =
     \<lparr>valor_total_pedagios = 15, numero_pracas = 1, valor_medio = 15, estimado = True\<rparr>"
proof -
  have "(fst jundiai - fst campinas)\<^sup>2 + (snd jundiai - snd campinas)\<^sup>2 \<le> 1"
    by (simp add: campinas_def jundiai_def power2_eq_square)
  then have "max 1 \<lfloor>great_circle_km campinas jundiai / 150\<rfloor> = 1"
    by (rule short_hop_one_plaza)
  then show ?thesis
    by (simp add: pedagio_estimado_def py_round_def round_half_even_def)
qed

lemma metricas_0:
  "metricas env_com_api 0 p q = (99.12, 1.26)"
  by (simp add: metricas_def env_com_api_def calculate_distance_time_def resposta_rota_def
      extract_distance_time_def py_round_def round_half_even_def Let_def)

lemma metricas_1:
  "metricas env_com_api (Suc 0) p q = (47.36, 0.67)"
  by (simp add: metricas_def env_com_api_def calculate_distance_time_def resposta_rota_def
      extract_distance_time_def py_round_def round_half_even_def Let_def)

lemma passo_1:
  "avancar env_com_api 0 ''Campinas, SP''
     \<lparr>info_documentos = [nfe_1001, nfe_1002], info_coordenadas = campinas\<rparr>
     (estado_inicial sao_paulo ''Sao Paulo, SP'') = estado_1"
  by (simp add: avancar_def montar_rota_def estado_inicial_def estado_1_def metricas_0
      pedagio_sp_campinas nfe_1001_def nfe_1002_def exemplo_rota_info_def
      py_round_def round_half_even_def Let_def)

lemma passo_2:
  "avancar env_com_api (Suc 0) ''Jundiai, SP''
     \<lparr>info_documentos = [nfe_1003], info_coordenadas = jundiai\<rparr> estado_1 = estado_2"
  by (simp add: avancar_def montar_rota_def estado_1_def estado_2_def metricas_1
      pedagio_campinas_jundiai nfe_1003_def exemplo_rota_info_def
      py_round_def round_half_even_def Let_def)

lemma otimizacao_exemplo:
  "RouteService_calculate_optimized_route (openroute_key env_com_api)
     (post_optimization env_com_api) sao_paulo [campinas, jundiai]
     = Some (JObj [(''code'', JNum 0)])"
  by (simp add: RouteService_calculate_optimized_route_def env_com_api_def)

lemma exemplo_run:
  "calculate_optimized_route env_com_api lote ''Sao Paulo, SP'' = Inr (Some exemplo_rota_info)"
proof -
  have g: "geocode_address env_com_api ''Sao Paulo, SP'' = Some sao_paulo"
    by (simp add: env_com_api_def)
  have "resultado env_com_api lote ''Sao Paulo, SP'' sao_paulo = exemplo_rota_info"
    by (simp add: resultado_def agrupar_lote Let_def passo_1 passo_2 otimizacao_exemplo
        estado_2_def py_round_def round_half_even_def exemplo_rota_info_def)
  then show ?thesis
    using calculate_optimized_route_returns [OF g, of lote] by simp
qed

lemma agrupar_colisao:
  "agrupar [nfe_3001, nfe_3002] =
     ([(''Campinas, SP, Brasil'',
        \<lparr>info_documentos = [nfe_3001, nfe_3002], info_coordenadas = campinas\<rparr>)],
      [campinas, jundiai])"
  by (simp add: agrupar_def agrupar_documento_def chave_local_def Let_def
      nfe_3001_def nfe_3002_def campinas_def jundiai_def)

lemma passo_colisao:
  "avancar env_com_api 0 ''Campinas, SP, Brasil''
     \<lparr>info_documentos = [nfe_3001, nfe_3002], info_coordenadas = campinas\<rparr>
     (estado_inicial sao_paulo ''Sao Paulo, SP'')
   = \<lparr>rotas_calculadas = rotas rota_colisao,
      distancia_total = 99.12, tempo_total = 1.26, pedagogios_total = 15,
      ponto_anterior = campinas, nome_anterior = ''Campinas, SP, Brasil''\<rparr>"
  by (simp add: avancar_def montar_rota_def estado_inicial_def metricas_0
      pedagio_sp_campinas nfe_3001_def nfe_3002_def rota_colisao_def
      py_round_def round_half_even_def Let_def)

lemma colisao_run:
  "calculate_optimized_route env_com_api [nfe_3001, nfe_3002] ''Sao Paulo, SP''
     = Inr (Some rota_colisao)"
proof -
  have g: "geocode_address env_com_api ''Sao Paulo, SP'' = Some sao_paulo"
    by (simp add: env_com_api_def)
  have "resultado env_com_api [nfe_3001, nfe_3002] ''Sao Paulo, SP'' sao_paulo = rota_colisao"
    by (simp add: resultado_def agrupar_colisao Let_def passo_colisao otimizacao_exemplo
        py_round_def round_half_even_def rota_colisao_def)
  then show ?thesis
    using calculate_optimized_route_returns [OF g, of "[nfe_3001, nfe_3002]"]
    by simp
qed

lemma exemplo_custos_run:
  "calculate_route_costs exemplo_rota_info 3.5 6.2 15 = Inr exemplo_custos"
  by (simp add: calculate_route_costs_def exemplo_rota_info_def exemplo_custos_def py_truediv_def
      custo_desgaste_def custo_motorista_def custo_seguro_def custo_entregas_def
      custo_alimentacao_def custo_pernoite_def generate_recommendations_def
      py_round_def round_half_even_def Let_def)

section \<open>Properties of the Cost Estimator\<close>

text \<open>
  C1 fails as stated. For the worked batch the Cost Estimator returns the total 485.34,
  while the eight category costs it returns add up to 485.35: the total is computed
  from the unrounded categories (fuel 259.4788..., wear 65.916) and rounded afterwards.
\<close>

theorem returned_total_is_not_sum_of_returned_categories:
  "calculate_route_costs exemplo_rota_info 3.5 6.2 15 = Inr exemplo_custos
   \<and> custo_total (resumo_dos_custos exemplo_custos) = 485.34
   \<and> combustivel (detalhamento exemplo_custos) + pedagio (detalhamento exemplo_custos)
       + desgaste_veiculo (detalhamento exemplo_custos) + motorista (detalhamento exemplo_custos)
       + seguro (detalhamento exemplo_custos) + taxa_entregas (detalhamento exemplo_custos)
       + alimentacao (detalhamento exemplo_custos) + pernoite (detalhamento exemplo_custos)
       = 485.35
   \<and> custo_total (resumo_dos_custos exemplo_custos)
       \<noteq> combustivel (detalhamento exemplo_custos) + pedagio (detalhamento exemplo_custos)
         + desgaste_veiculo (detalhamento exemplo_custos) + motorista (detalhamento exemplo_custos)
         + seguro (detalhamento exemplo_custos) + taxa_entregas (detalhamento exemplo_custos)
         + alimentacao (detalhamento exemplo_custos) + pernoite (detalhamento exemplo_custos)"
proof (intro conjI)
  show "calculate_route_costs exemplo_rota_info 3.5 6.2 15 = Inr exemplo_custos"
    by (rule exemplo_custos_run)
qed (simp_all add: exemplo_custos_def)

text \<open>
  C1, amended. For every trip summary with at least one delivery and a non-zero
  distance, and every valid parameter set, provided that no unrounded category cost
  exceeds \<open>10^9\<close> in absolute value (the range in which a double resolves a cent):
  the Cost Estimator returns a report; each category cost in it is the value of its
  formula rounded to 2 decimals; the total is the sum of the eight unrounded category
  costs, rounded to 2 decimals; and the total differs from the sum of the eight
  returned category costs by at most 0.045, hence by at most four cents.
\<close>

theorem total_and_categories_are_rounded_separately:
  assumes "0 < consumo_medio" and "0 < preco_combustivel" and "0 < valor_hora"
    and "total_entregas (resumo info) \<noteq> 0" and "distancia_total_km (resumo info) \<noteq> 0"
    and "list_all (\<lambda>c. \<bar>c\<bar> \<le> 10 ^ 9)
           (custos_brutos (resumo info) consumo_medio preco_combustivel valor_hora)"
  shows "\<exists>custos. calculate_route_costs info consumo_medio preco_combustivel valor_hora = Inr custos
     \<and> list_all2 (arredondado 2)
          (custos_brutos (resumo info) consumo_medio preco_combustivel valor_hora)
          (custos_devolvidos custos)
     \<and> arredondado 2
          (sum_list (custos_brutos (resumo info) consumo_medio preco_combustivel valor_hora))
          (custo_total (resumo_dos_custos custos))
     \<and> \<bar>custo_total (resumo_dos_custos custos) - sum_list (custos_devolvidos custos)\<bar>
          \<le> 45 / 1000"
proof -
  define c1 where "c1 = custo_combustivel (resumo info) consumo_medio preco_combustivel"
  define c2 where "c2 = custo_pedagogios_total (resumo info)"
  define c3 where "c3 = custo_desgaste (resumo info)"
  define c4 where "c4 = custo_motorista (resumo info) valor_hora"
  define c5 where "c5 = custo_seguro (resumo info)"
  define c6 where "c6 = custo_entregas (resumo info)"
  define c7 where "c7 = custo_alimentacao (resumo info)"
  define c8 where "c8 = custo_pernoite (resumo info)"
  define custos where "custos =
    (case calculate_route_costs info consumo_medio preco_combustivel valor_hora of Inr c \<Rightarrow> c)"
  have brutos: "custos_brutos (resumo info) consumo_medio preco_combustivel valor_hora
      = [c1, c2, c3, c4, c5, c6, c7, c8]"
    by (simp add: custos_brutos_def c1_def c2_def c3_def c4_def c5_def c6_def c7_def c8_def)
  have run: "calculate_route_costs info consumo_medio preco_combustivel valor_hora = Inr custos"
    using assms(1-5)
    by (simp add: custos_def calculate_route_costs_def py_truediv_def Let_def)
  have cats:
    "combustivel (detalhamento custos) = py_round c1 2"
    "pedagio (detalhamento custos) = py_round c2 2"
    "desgaste_veiculo (detalhamento custos) = py_round c3 2"
    "motorista (detalhamento custos) = py_round c4 2"
    "seguro (detalhamento custos) = py_round c5 2"
    "taxa_entregas (detalhamento custos) = py_round c6 2"
    "alimentacao (detalhamento custos) = py_round c7 2"
    "pernoite (detalhamento custos) = py_round c8 2"
    using assms(1-5)
    by (simp_all add: custos_def calculate_route_costs_def py_truediv_def Let_def
        custo_combustivel_def c1_def c2_def c3_def c4_def c5_def c6_def c7_def c8_def)
  have total: "custo_total (resumo_dos_custos custos)
      = py_round (c1 + c2 + c3 + c4 + c5 + c6 + c7 + c8) 2"
    using assms(1-5)
    by (simp add: custos_def calculate_route_costs_def py_truediv_def Let_def
        custo_combustivel_def c1_def c2_def c3_def c4_def c5_def c6_def c7_def c8_def)
  have devolvidos: "custos_devolvidos custos
      = [py_round c1 2, py_round c2 2, py_round c3 2, py_round c4 2,
         py_round c5 2, py_round c6 2, py_round c7 2, py_round c8 2]"
    by (simp only: custos_devolvidos_def cats)
  have each: "list_all2 (arredondado 2) [c1, c2, c3, c4, c5, c6, c7, c8]
      (custos_devolvidos custos)"
    unfolding devolvidos by (simp add: arredondado_py_round)
  have sum_b: "sum_list [c1, c2, c3, c4, c5, c6, c7, c8] = c1 + c2 + c3 + c4 + c5 + c6 + c7 + c8"
    by simp
  have whole: "arredondado 2 (sum_list [c1, c2, c3, c4, c5, c6, c7, c8])
      (custo_total (resumo_dos_custos custos))"
    unfolding sum_b total by (rule arredondado_py_round)
  have close: "\<bar>py_round (c1 + c2 + c3 + c4 + c5 + c6 + c7 + c8) 2
      - (py_round c1 2 + py_round c2 2 + py_round c3 2 + py_round c4 2
         + py_round c5 2 + py_round c6 2 + py_round c7 2 + py_round c8 2)\<bar> \<le> 45 / 1000"
    unfolding abs_le_iff
    using py_round_bounds2 [of c1] py_round_bounds2 [of c2] py_round_bounds2 [of c3]
      py_round_bounds2 [of c4] py_round_bounds2 [of c5] py_round_bounds2 [of c6]
      py_round_bounds2 [of c7] py_round_bounds2 [of c8]
      py_round_bounds2 [of "c1 + c2 + c3 + c4 + c5 + c6 + c7 + c8"]
    by (intro conjI) linarith+
  have bound: "\<bar>custo_total (resumo_dos_custos custos) - sum_list (custos_devolvidos custos)\<bar>
      \<le> 45 / 1000"
    using close unfolding devolvidos total by (simp add: add.assoc)
  show ?thesis
    apply (rule exI [of _ custos])
    unfolding brutos
    using run each whole bound by (simp only: simp_thms)
qed

lemma round_half_even_of_int: "round_half_even (of_int n) = n"
  by (simp add: round_half_even_def)

lemma py_round_of_int: "py_round (of_int n) k = of_int n"
proof -
  have "of_int n * (10::real) ^ k = of_int (n * 10 ^ k)" by simp
  then have "round_half_even (of_int n * 10 ^ k) = n * 10 ^ k"
    by (simp only: round_half_even_of_int)
  then show ?thesis by (simp add: py_round_def)
qed

lemma py_round_1_tenths: "py_round x 1 = of_int (round_half_even (x * 10)) / 10"
  by (simp add: py_round_def)

lemma one_decimal_times_50: "py_round (py_round x 1 * 50) 2 = py_round x 1 * 50"
proof -
  have p: "py_round x 1 = of_int (round_half_even (x * 10)) / 10"
    by (rule py_round_1_tenths)
  have "py_round x 1 * 50 = of_int (round_half_even (x * 10) * 5)"
    unfolding p by simp
  then show ?thesis by (simp only: py_round_of_int)
qed

lemma one_decimal_times_80: "py_round (py_round x 1 * 80) 2 = py_round x 1 * 80"
proof -
  have p: "py_round x 1 = of_int (round_half_even (x * 10)) / 10"
    by (rule py_round_1_tenths)
  have "py_round x 1 * 80 = of_int (round_half_even (x * 10) * 8)"
    unfolding p by simp
  then show ?thesis by (simp only: py_round_of_int)
qed

lemma one_decimal_lodging:
  "py_round (max 0 (py_round x 1 - 1) * 150) 2 = max 0 (py_round x 1 - 1) * 150"
proof -
  define m where "m = round_half_even (x * 10)"
  have p: "py_round x 1 = of_int m / 10"
    unfolding m_def by (rule py_round_1_tenths)
  have "max 0 (of_int m / 10 - 1) * 150 = (of_int (max 0 ((m - 10) * 15)) :: real)"
    by (simp add: max_def field_simps)
  then have "max 0 (py_round x 1 - 1) * 150 = of_int (max 0 ((m - 10) * 15))"
    unfolding p .
  then show ?thesis by (simp only: py_round_of_int)
qed

text \<open>
  C3, amended. For every result of a routing run whose total time does not exceed
  \<open>10^6\<close> hours in absolute value, with \<open>T\<close> the time accumulated by the leg loop
  (the sum of the unrounded leg times): the summary's hours are \<open>T\<close> rounded to 2
  decimals and its days are \<open>T / 8\<close> rounded to 1 decimal, so the days are within
  \<open>0.05 + 0.005 / 8\<close> of the hours divided by 8 and need not equal them. Whenever the
  Cost Estimator returns a report for the result, the insurance cost is days * 50, the
  meal cost days * 80 and the lodging cost max(0, days - 1) * 150 (rounding them to 2
  decimals changes nothing, the days being a multiple of 0.1).
\<close>

theorem days_round_an_eighth_of_the_accumulated_time:
  assumes run: "calculate_optimized_route env docs endereco = Inr (Some info)"
    and size: "\<bar>tempo_total_horas (resumo info)\<bar> \<le> 10 ^ 6"
  shows "\<exists>oc st. geocode_address env endereco = Some oc
     \<and> rotas_individuais env (fst (agrupar docs)) oc endereco = Inr st
     \<and> arredondado 2 (tempo_total st) (tempo_total_horas (resumo info))
     \<and> arredondado 1 (tempo_total st / 8) (tempo_total_dias (resumo info))
     \<and> \<bar>tempo_total_dias (resumo info) - tempo_total_horas (resumo info) / 8\<bar> \<le> 81 / 1600
     \<and> (\<forall>consumo_medio preco_combustivel valor_hora custos.
           calculate_route_costs info consumo_medio preco_combustivel valor_hora = Inr custos
           \<longrightarrow> seguro (detalhamento custos) = tempo_total_dias (resumo info) * 50
             \<and> alimentacao (detalhamento custos) = tempo_total_dias (resumo info) * 80
             \<and> pernoite (detalhamento custos)
                 = max 0 (tempo_total_dias (resumo info) - 1) * 150)"
proof -
  obtain oc where g: "geocode_address env endereco = Some oc"
    and info: "info = resultado env docs endereco oc"
    using calculate_optimized_route_result [OF run] by blast
  define st where "st = avancar_todos env 0 (fst (agrupar docs)) (estado_inicial oc endereco)"
  have loop: "rotas_individuais env (fst (agrupar docs)) oc endereco = Inr st"
    unfolding st_def by (rule rotas_individuais_agrupar)
  have h: "tempo_total_horas (resumo info) = py_round (tempo_total st) 2"
    by (simp add: info resultado_def Let_def st_def)
  have d: "tempo_total_dias (resumo info) = py_round (tempo_total st / 8) 1"
    by (simp add: info resultado_def Let_def st_def)
  have rh: "arredondado 2 (tempo_total st) (tempo_total_horas (resumo info))"
    unfolding h by (rule arredondado_py_round)
  have rd: "arredondado 1 (tempo_total st / 8) (tempo_total_dias (resumo info))"
    unfolding d by (rule arredondado_py_round)
  have near: "\<bar>tempo_total_dias (resumo info) - tempo_total_horas (resumo info) / 8\<bar> \<le> 81 / 1600"
    unfolding h d abs_le_iff
    using py_round_bounds2 [of "tempo_total st"] py_round_close1 [of "tempo_total st / 8"]
    by (intro conjI) linarith+
  have costs: "seguro (detalhamento custos) = tempo_total_dias (resumo info) * 50
        \<and> alimentacao (detalhamento custos) = tempo_total_dias (resumo info) * 80
        \<and> pernoite (detalhamento custos) = max 0 (tempo_total_dias (resumo info) - 1) * 150"
    if "calculate_route_costs info consumo_medio preco_combustivel valor_hora = Inr custos"
    for consumo_medio preco_combustivel valor_hora custos
  proof -
    have "seguro (detalhamento custos) = py_round (tempo_total_dias (resumo info) * 50) 2"
      "alimentacao (detalhamento custos) = py_round (tempo_total_dias (resumo info) * 80) 2"
      "pernoite (detalhamento custos)
         = py_round (max 0 (tempo_total_dias (resumo info) - 1) * 150) 2"
      using that
      by (auto simp: calculate_route_costs_def py_truediv_def Let_def custo_seguro_def
          custo_alimentacao_def custo_pernoite_def split: if_splits)
    then show ?thesis
      unfolding d by (simp only: one_decimal_times_50 one_decimal_times_80 one_decimal_lodging)
  qed
  from g loop rh rd near costs show ?thesis by blast
qed

section \<open>Properties of the Leg Metrics Provider\<close>

lemma distancia_tempo_from_a:
  "distancia_tempo api_key post p q = distancia_tempo_from api_key post p q (haversine_a p q)"
  by (simp add: distancia_tempo_def distancia_tempo_from_def calculate_haversine_distance_from
      split: option.splits)

text \<open>
  C5 does not hold of the code. The claim is right about the external call: it yields
  no metrics (\<^verbatim>\<open>None\<close>), and raises nothing, when no credential is configured, when
  the request raises (timeout, connection error), when the status is not 200, when the
  body is not JSON, and when the metrics cannot be read from it (no route, or a distance
  too large for a float); the provider then takes the value of the Distance Estimator as
  distance and that distance divided by 60 as time. But the Distance Estimator does
  not return for every pair: for a leg from \<open>ponto_norte\<close> to \<open>antipoda\<close> with no
  credential configured it raises \<^verbatim>\<open>ValueError\<close>, no pair is yielded, and the
  exception leaves the provider.
\<close>

theorem fallback_raises_at_antipodes:
  "calculate_distance_time [] post p q = None
   \<and> calculate_distance_time api_key (\<lambda>p q. RequestException) p q = None
   \<and> (status = 200 \<or> calculate_distance_time api_key (\<lambda>p q. HttpResponse status body) p q = None)
   \<and> calculate_distance_time api_key (\<lambda>p q. HttpResponse status None) p q = None
   \<and> calculate_distance_time api_key
         (\<lambda>p q. HttpResponse 200 (Some (JObj [(''routes'', JArr [])]))) p q = None
   \<and> calculate_distance_time api_key
         (\<lambda>p q. HttpResponse 200 (Some (JObj [(''routes'',
            JArr [JObj [(''summary'',
              JObj [(''distance'', JInt (10 ^ 400)), (''duration'', JNum 4536)])]])]))) p q = None
   \<and> distancia_tempo api_key post p q = distancia_tempo_from api_key post p q (haversine_a p q)
   \<and> distancia_tempo_from api_key post p q a =
       (case calculate_distance_time api_key post p q of
          Some rota_api \<Rightarrow> Inr (dt_distancia_km rota_api, dt_tempo_horas rota_api)
        | None \<Rightarrow>
            (case haversine_from_a a of
               Inl e \<Rightarrow> Inl e
             | Inr distancia \<Rightarrow> Inr (distancia, distancia / 60)))
   \<and> distancia_tempo_from [] post ponto_norte antipoda
       (haversine_a ponto_norte antipoda + 1 / 2 ^ 52) = Inl ValueError"
proof (intro conjI)
  show "calculate_distance_time [] post p q = None"
    by (simp add: calculate_distance_time_def)
  show "calculate_distance_time api_key (\<lambda>p q. RequestException) p q = None"
    by (simp add: calculate_distance_time_def)
  show "status = 200 \<or> calculate_distance_time api_key (\<lambda>p q. HttpResponse status body) p q = None"
    by (simp add: calculate_distance_time_def)
  show "calculate_distance_time api_key (\<lambda>p q. HttpResponse status None) p q = None"
    by (simp add: calculate_distance_time_def)
  show "calculate_distance_time api_key
         (\<lambda>p q. HttpResponse 200 (Some (JObj [(''routes'', JArr [])]))) p q = None"
    by (simp add: calculate_distance_time_def extract_distance_time_def)
  have "extract_distance_time (JObj [(''routes'',
            JArr [JObj [(''summary'',
              JObj [(''distance'', JInt (10 ^ 400)), (''duration'', JNum 4536)])]])]) = None"
    by (simp add: extract_distance_time_def)
  then show "calculate_distance_time api_key
         (\<lambda>p q. HttpResponse 200 (Some (JObj [(''routes'',
            JArr [JObj [(''summary'',
              JObj [(''distance'', JInt (10 ^ 400)), (''duration'', JNum 4536)])]])]))) p q = None"
    by (simp add: calculate_distance_time_def)
  show "distancia_tempo api_key post p q
      = distancia_tempo_from api_key post p q (haversine_a p q)"
    by (rule distancia_tempo_from_a)
  show "distancia_tempo_from api_key post p q a =
       (case calculate_distance_time api_key post p q of
          Some rota_api \<Rightarrow> Inr (dt_distancia_km rota_api, dt_tempo_horas rota_api)
        | None \<Rightarrow>
            (case haversine_from_a a of
               Inl e \<Rightarrow> Inl e
             | Inr distancia \<Rightarrow> Inr (distancia, distancia / 60)))"
    by (rule distancia_tempo_from_def)
  have none: "calculate_distance_time [] post ponto_norte antipoda = None"
    by (simp add: calculate_distance_time_def)
  have "haversine_from_a (haversine_a ponto_norte antipoda + 1 / 2 ^ 52) = Inl ValueError"
    by (rule haversine_from_a_above_one) (simp add: haversine_a_antipoda)
  then show "distancia_tempo_from [] post ponto_norte antipoda
       (haversine_a ponto_norte antipoda + 1 / 2 ^ 52) = Inl ValueError"
    by (simp add: distancia_tempo_from_def none)
qed

section \<open>Division by zero in the Cost Estimator\<close>

text \<open>
  C8. When the trip summary has zero deliveries or zero distance, the Cost Estimator
  does not return a report: it raises \<^verbatim>\<open>ZeroDivisionError\<close>.
\<close>

theorem zero_division_is_reported:
  "total_entregas (resumo info) = 0 \<or> distancia_total_km (resumo info) = 0
   \<Longrightarrow> calculate_route_costs info consumo_medio preco_combustivel valor_hora
         = Inl ZeroDivisionError"
  by (auto simp: calculate_route_costs_def py_truediv_def Let_def)

lemma rota_vazia_run:
  "calculate_optimized_route env_sem_chaves [cte_2001] ''Sao Paulo, SP'' = Inr (Some rota_vazia)"
proof -
  have g: "geocode_address env_sem_chaves ''Sao Paulo, SP'' = Some sao_paulo"
    by (simp add: env_sem_chaves_def)
  have a: "agrupar [cte_2001] = ([], [])"
    by (simp add: agrupar_def agrupar_documento_def cte_2001_def)
  have "resultado env_sem_chaves [cte_2001] ''Sao Paulo, SP'' sao_paulo = rota_vazia"
    by (simp add: resultado_def a Let_def estado_inicial_def rota_vazia_def
        RouteService_calculate_optimized_route_def env_sem_chaves_def
        py_round_def round_half_even_def)
  then show ?thesis
    using calculate_optimized_route_returns [OF g, of "[cte_2001]"] by simp
qed

text \<open>
  C8 at a batch whose only record has no coordinates: the routing run returns a summary
  with zero deliveries, and the Cost Estimator raises on it.
\<close>

theorem zero_division_is_reported_witness:
  "calculate_optimized_route env_sem_chaves [cte_2001] ''Sao Paulo, SP'' = Inr (Some rota_vazia)
   \<and> total_entregas (resumo rota_vazia) = 0
   \<and> calculate_route_costs rota_vazia 3.5 6.2 15 = Inl ZeroDivisionError"
proof -
  have z: "total_entregas (resumo rota_vazia) = 0" by (simp add: rota_vazia_def)
  then have "total_entregas (resumo rota_vazia) = 0 \<or> distancia_total_km (resumo rota_vazia) = 0"
    by simp
  then have "calculate_route_costs rota_vazia 3.5 6.2 15 = Inl ZeroDivisionError"
    by (rule zero_division_is_reported)
  then show ?thesis using rota_vazia_run z by simp
qed

section \<open>The flag for the routing service\<close>

lemma agrupar_um:
  "agrupar [nfe_1001] =
     ([(''Campinas, SP'', \<lparr>info_documentos = [nfe_1001], info_coordenadas = campinas\<rparr>)],
      [campinas])"
  by (simp add: agrupar_def agrupar_documento_def chave_local_def Let_def nfe_1001_def)

text \<open>
  C9 does not hold of the code. The flag \<^verbatim>\<open>api_utilizada\<close> is the truth value of the
  optimization request's answer and does not depend on where the leg metrics came
  from. With a successful optimization request and failing directions requests the
  flag is set although the only leg has the haversine fallback metrics; with a
  failing optimization request and successful directions requests the flag is not set
  although the only leg has the metrics of the routing service.
\<close>

theorem api_flag_ignores_leg_metrics:
  "(\<exists>info. calculate_optimized_route env_rotas_falham [nfe_1001] ''Sao Paulo, SP''
        = Inr (Some info)
      \<and> api_utilizada (resumo info)
      \<and> length (rotas info) = 1
      \<and> calculate_distance_time (openroute_key env_rotas_falham)
           (post_directions env_rotas_falham 0) sao_paulo campinas = None
      \<and> distancia_km (rotas info ! 0) = py_round (great_circle_km sao_paulo campinas) 2
      \<and> tempo_estimado_horas (rotas info ! 0)
          = py_round (great_circle_km sao_paulo campinas / 60) 2)
   \<and> (\<exists>info. calculate_optimized_route env_otimizacao_falha [nfe_1001] ''Sao Paulo, SP''
        = Inr (Some info)
      \<and> \<not> api_utilizada (resumo info)
      \<and> length (rotas info) = 1
      \<and> calculate_distance_time (openroute_key env_otimizacao_falha)
           (post_directions env_otimizacao_falha 0) sao_paulo campinas
          = Some \<lparr>dt_distancia_km = 99.12, dt_tempo_horas = 1.26, dt_geometria = None\<rparr>
      \<and> distancia_km (rotas info ! 0) = 99.12
      \<and> tempo_estimado_horas (rotas info ! 0) = 1.26)"
proof (intro conjI)
  have g: "geocode_address env_rotas_falham ''Sao Paulo, SP'' = Some sao_paulo"
    by (simp add: env_rotas_falham_def)
  have call: "calculate_distance_time (openroute_key env_rotas_falham)
      (post_directions env_rotas_falham 0) sao_paulo campinas = None"
    by (simp add: calculate_distance_time_def env_rotas_falham_def)
  have m: "metricas env_rotas_falham 0 sao_paulo campinas
      = (great_circle_km sao_paulo campinas, great_circle_km sao_paulo campinas / 60)"
    by (simp add: metricas_def call)
  have flag: "api_utilizada (resumo (resultado env_rotas_falham [nfe_1001] ''Sao Paulo, SP'' sao_paulo))"
    by (simp add: resultado_def Let_def RouteService_calculate_optimized_route_def
        env_rotas_falham_def)
  have legs: "rotas (resultado env_rotas_falham [nfe_1001] ''Sao Paulo, SP'' sao_paulo)
      = [montar_rota env_rotas_falham 0 ''Sao Paulo, SP'' sao_paulo ''Campinas, SP''
           \<lparr>info_documentos = [nfe_1001], info_coordenadas = campinas\<rparr>]"
    by (simp add: rotas_resultado agrupar_um)
  show "\<exists>info. calculate_optimized_route env_rotas_falham [nfe_1001] ''Sao Paulo, SP''
        = Inr (Some info)
      \<and> api_utilizada (resumo info)
      \<and> length (rotas info) = 1
      \<and> calculate_distance_time (openroute_key env_rotas_falham)
           (post_directions env_rotas_falham 0) sao_paulo campinas = None
      \<and> distancia_km (rotas info ! 0) = py_round (great_circle_km sao_paulo campinas) 2
      \<and> tempo_estimado_horas (rotas info ! 0)
          = py_round (great_circle_km sao_paulo campinas / 60) 2"
    using calculate_optimized_route_returns [OF g, of "[nfe_1001]"] flag call
    by (intro exI [of _ "resultado env_rotas_falham [nfe_1001] ''Sao Paulo, SP'' sao_paulo"])
      (simp add: legs montar_rota_def m)
next
  have g: "geocode_address env_otimizacao_falha ''Sao Paulo, SP'' = Some sao_paulo"
    by (simp add: env_otimizacao_falha_def)
  have call: "calculate_distance_time (openroute_key env_otimizacao_falha)
      (post_directions env_otimizacao_falha 0) sao_paulo campinas
      = Some \<lparr>dt_distancia_km = 99.12, dt_tempo_horas = 1.26, dt_geometria = None\<rparr>"
    by (simp add: calculate_distance_time_def env_otimizacao_falha_def resposta_rota_def
        extract_distance_time_def py_round_def round_half_even_def Let_def)
  have m: "metricas env_otimizacao_falha 0 sao_paulo campinas = (99.12, 1.26)"
    by (simp add: metricas_def call)
  have flag: "\<not> api_utilizada
      (resumo (resultado env_otimizacao_falha [nfe_1001] ''Sao Paulo, SP'' sao_paulo))"
    by (simp add: resultado_def Let_def RouteService_calculate_optimized_route_def
        env_otimizacao_falha_def)
  have legs: "rotas (resultado env_otimizacao_falha [nfe_1001] ''Sao Paulo, SP'' sao_paulo)
      = [montar_rota env_otimizacao_falha 0 ''Sao Paulo, SP'' sao_paulo ''Campinas, SP''
           \<lparr>info_documentos = [nfe_1001], info_coordenadas = campinas\<rparr>]"
    by (simp add: rotas_resultado agrupar_um)
  show "\<exists>info. calculate_optimized_route env_otimizacao_falha [nfe_1001] ''Sao Paulo, SP''
        = Inr (Some info)
      \<and> \<not> api_utilizada (resumo info)
      \<and> length (rotas info) = 1
      \<and> calculate_distance_time (openroute_key env_otimizacao_falha)
           (post_directions env_otimizacao_falha 0) sao_paulo campinas
          = Some \<lparr>dt_distancia_km = 99.12, dt_tempo_horas = 1.26, dt_geometria = None\<rparr>
      \<and> distancia_km (rotas info ! 0) = 99.12
      \<and> tempo_estimado_horas (rotas info ! 0) = 1.26"
    using calculate_optimized_route_returns [OF g, of "[nfe_1001]"] flag call
    by (intro exI [of _ "resultado env_otimizacao_falha [nfe_1001] ''Sao Paulo, SP'' sao_paulo"])
      (simp add: legs montar_rota_def m py_round_def round_half_even_def Let_def)
qed

section \<open>The claims at the worked batch\<close>

lemma geocode_exemplo: "geocode_address env_com_api ''Sao Paulo, SP'' = Some sao_paulo"
  by (simp add: env_com_api_def)

lemma rotas_individuais_exemplo:
  "rotas_individuais env_com_api (fst (agrupar lote)) sao_paulo ''Sao Paulo, SP'' = Inr estado_2"
  unfolding rotas_individuais_agrupar by (simp add: agrupar_lote passo_1 passo_2)

text \<open>The amended C1 at the worked batch.\<close>

theorem total_and_categories_are_rounded_separately_witness:
  "(0::real) < 3.5 \<and> (0::real) < 6.2 \<and> (0::real) < 15
   \<and> total_entregas (resumo exemplo_rota_info) \<noteq> 0
   \<and> distancia_total_km (resumo exemplo_rota_info) \<noteq> 0
   \<and> list_all (\<lambda>c. \<bar>c\<bar> \<le> 10 ^ 9) (custos_brutos (resumo exemplo_rota_info) 3.5 6.2 15)
   \<and> calculate_route_costs exemplo_rota_info 3.5 6.2 15 = Inr exemplo_custos
   \<and> list_all2 (arredondado 2) (custos_brutos (resumo exemplo_rota_info) 3.5 6.2 15)
        (custos_devolvidos exemplo_custos)
   \<and> arredondado 2 (sum_list (custos_brutos (resumo exemplo_rota_info) 3.5 6.2 15))
        (custo_total (resumo_dos_custos exemplo_custos))
   \<and> \<bar>custo_total (resumo_dos_custos exemplo_custos) - sum_list (custos_devolvidos exemplo_custos)\<bar>
        \<le> 45 / 1000"
proof -
  have p: "(0::real) < 3.5" "(0::real) < 6.2" "(0::real) < 15" by simp_all
  have n: "total_entregas (resumo exemplo_rota_info) \<noteq> 0"
      "distancia_total_km (resumo exemplo_rota_info) \<noteq> 0"
    by (simp_all add: exemplo_rota_info_def)
  have m: "list_all (\<lambda>c. \<bar>c\<bar> \<le> 10 ^ 9) (custos_brutos (resumo exemplo_rota_info) 3.5 6.2 15)"
    by (simp add: custos_brutos_def exemplo_rota_info_def custo_combustivel_def
        custo_desgaste_def custo_motorista_def custo_seguro_def custo_entregas_def
        custo_alimentacao_def custo_pernoite_def)
  obtain custos where c: "calculate_route_costs exemplo_rota_info 3.5 6.2 15 = Inr custos"
    and e: "list_all2 (arredondado 2) (custos_brutos (resumo exemplo_rota_info) 3.5 6.2 15)
        (custos_devolvidos custos)"
    and t: "arredondado 2 (sum_list (custos_brutos (resumo exemplo_rota_info) 3.5 6.2 15))
        (custo_total (resumo_dos_custos custos))"
    and b: "\<bar>custo_total (resumo_dos_custos custos) - sum_list (custos_devolvidos custos)\<bar>
        \<le> 45 / 1000"
    using total_and_categories_are_rounded_separately [OF p n m] by blast
  have "custos = exemplo_custos" using c exemplo_custos_run by simp
  then show ?thesis using p n m c e t b by (simp only: simp_thms)
qed

text \<open>
  C3 fails as stated. For the worked batch the accumulated time is 1.93 h; the summary
  holds 1.93 hours and 0.2 days, and 0.2 is not 1.93 / 8. The insurance cost is 10.0,
  which is 0.2 * 50 and not 1.93 / 8 * 50.
\<close>

theorem days_differ_from_eighth_of_hours:
  "calculate_optimized_route env_com_api lote ''Sao Paulo, SP'' = Inr (Some exemplo_rota_info)
   \<and> tempo_total_horas (resumo exemplo_rota_info) = 1.93
   \<and> tempo_total_dias (resumo exemplo_rota_info) = 0.2
   \<and> tempo_total_dias (resumo exemplo_rota_info)
       \<noteq> tempo_total_horas (resumo exemplo_rota_info) / 8
   \<and> calculate_route_costs exemplo_rota_info 3.5 6.2 15 = Inr exemplo_custos
   \<and> seguro (detalhamento exemplo_custos) = 10
   \<and> seguro (detalhamento exemplo_custos)
       \<noteq> tempo_total_horas (resumo exemplo_rota_info) / 8 * 50"
proof (intro conjI)
  show "calculate_optimized_route env_com_api lote ''Sao Paulo, SP'' = Inr (Some exemplo_rota_info)"
    by (rule exemplo_run)
  show "calculate_route_costs exemplo_rota_info 3.5 6.2 15 = Inr exemplo_custos"
    by (rule exemplo_custos_run)
qed (simp_all add: exemplo_rota_info_def exemplo_custos_def)

text \<open>The amended C3 at the worked batch.\<close>

theorem days_round_an_eighth_of_the_accumulated_time_witness:
  "calculate_optimized_route env_com_api lote ''Sao Paulo, SP'' = Inr (Some exemplo_rota_info)
   \<and> \<bar>tempo_total_horas (resumo exemplo_rota_info)\<bar> \<le> 10 ^ 6
   \<and> geocode_address env_com_api ''Sao Paulo, SP'' = Some sao_paulo
   \<and> rotas_individuais env_com_api (fst (agrupar lote)) sao_paulo ''Sao Paulo, SP'' = Inr estado_2
   \<and> tempo_total estado_2 = 1.93
   \<and> arredondado 2 (tempo_total estado_2) (tempo_total_horas (resumo exemplo_rota_info))
   \<and> arredondado 1 (tempo_total estado_2 / 8) (tempo_total_dias (resumo exemplo_rota_info))
   \<and> tempo_total_dias (resumo exemplo_rota_info) = 0.2
   \<and> seguro (detalhamento exemplo_custos) = tempo_total_dias (resumo exemplo_rota_info) * 50
   \<and> alimentacao (detalhamento exemplo_custos) = tempo_total_dias (resumo exemplo_rota_info) * 80
   \<and> pernoite (detalhamento exemplo_custos)
       = max 0 (tempo_total_dias (resumo exemplo_rota_info) - 1) * 150"
proof -
  have size: "\<bar>tempo_total_horas (resumo exemplo_rota_info)\<bar> \<le> 10 ^ 6"
    by (simp add: exemplo_rota_info_def)
  obtain oc st where g: "geocode_address env_com_api ''Sao Paulo, SP'' = Some oc"
    and loop: "rotas_individuais env_com_api (fst (agrupar lote)) oc ''Sao Paulo, SP'' = Inr st"
    and h: "arredondado 2 (tempo_total st) (tempo_total_horas (resumo exemplo_rota_info))"
    and d: "arredondado 1 (tempo_total st / 8) (tempo_total_dias (resumo exemplo_rota_info))"
    and c: "\<forall>consumo_medio preco_combustivel valor_hora custos.
           calculate_route_costs exemplo_rota_info consumo_medio preco_combustivel valor_hora
             = Inr custos
           \<longrightarrow> seguro (detalhamento custos) = tempo_total_dias (resumo exemplo_rota_info) * 50
             \<and> alimentacao (detalhamento custos)
                 = tempo_total_dias (resumo exemplo_rota_info) * 80
             \<and> pernoite (detalhamento custos)
                 = max 0 (tempo_total_dias (resumo exemplo_rota_info) - 1) * 150"
    using days_round_an_eighth_of_the_accumulated_time [OF exemplo_run size] by blast
  have o: "oc = sao_paulo" using g geocode_exemplo by simp
  have s: "st = estado_2" using loop rotas_individuais_exemplo unfolding o by simp
  have t: "tempo_total estado_2 = 1.93" by (simp add: estado_2_def)
  have dias: "tempo_total_dias (resumo exemplo_rota_info) = 0.2"
    by (simp add: exemplo_rota_info_def)
  have "seguro (detalhamento exemplo_custos) = tempo_total_dias (resumo exemplo_rota_info) * 50
     \<and> alimentacao (detalhamento exemplo_custos) = tempo_total_dias (resumo exemplo_rota_info) * 80
     \<and> pernoite (detalhamento exemplo_custos)
         = max 0 (tempo_total_dias (resumo exemplo_rota_info) - 1) * 150"
    using c exemplo_custos_run by blast
  then show ?thesis
    using exemplo_run size geocode_exemplo rotas_individuais_exemplo t dias h d unfolding s
    by (simp only: simp_thms)
qed

text \<open>
  C4 fails as stated. The records 3001 and 3002 both have coordinates and their
  (city, region) pairs differ, so in first-seen order of the pairs there would be two
  legs. The code makes the same key string of both pairs, and the run returns one leg,
  to the coordinates of record 3001, holding both documents.
\<close>

theorem colliding_keys_share_one_leg:
  "calculate_optimized_route env_com_api [nfe_3001, nfe_3002] ''Sao Paulo, SP''
     = Inr (Some rota_colisao)
   \<and> coordenadas nfe_3001 = Some campinas
   \<and> coordenadas nfe_3002 = Some jundiai
   \<and> (cidade nfe_3001, uf nfe_3001) = (''Campinas'', ''SP, Brasil'')
   \<and> (cidade nfe_3002, uf nfe_3002) = (''Campinas, SP'', ''Brasil'')
   \<and> (cidade nfe_3001, uf nfe_3001) \<noteq> (cidade nfe_3002, uf nfe_3002)
   \<and> length (rotas rota_colisao) = 1
   \<and> map destino (rotas rota_colisao) = [''Campinas, SP, Brasil'']
   \<and> map coordenadas_destino (rotas rota_colisao) = [campinas]
   \<and> map documentos (rotas rota_colisao) = [[''3001'', ''3002'']]"
proof (intro conjI)
  show "calculate_optimized_route env_com_api [nfe_3001, nfe_3002] ''Sao Paulo, SP''
     = Inr (Some rota_colisao)"
    by (rule colisao_run)
qed (simp_all add: nfe_3001_def nfe_3002_def rota_colisao_def)

text \<open>
  The amended C4 at the worked batch: the records arrive in the order 1001 (Campinas),
  2001 (Santos, no coordinates), 1003 (Jundiai), 1002 (Campinas); no two pairs give the
  same key string; the legs go to Campinas, then Jundiai, and record 2001 is in
  neither.
\<close>

theorem legs_in_first_seen_order_of_key_strings_witness:
  "calculate_optimized_route env_com_api lote ''Sao Paulo, SP'' = Inr (Some exemplo_rota_info)
   \<and> map numero lote = [''1001'', ''2001'', ''1003'', ''1002'']
   \<and> map numero (com_coordenadas lote) = [''1001'', ''1003'', ''1002'']
   \<and> map par_local (com_coordenadas lote)
       = [(''Campinas'', ''SP''), (''Jundiai'', ''SP''), (''Campinas'', ''SP'')]
   \<and> inj_on rotulo (set (map par_local (com_coordenadas lote)))
   \<and> map destino (rotas exemplo_rota_info)
       = map rotulo (first_seen (map par_local (com_coordenadas lote)))
   \<and> map destino (rotas exemplo_rota_info) = [''Campinas, SP'', ''Jundiai, SP'']
   \<and> map documentos (rotas exemplo_rota_info) = [[''1001'', ''1002''], [''1003'']]
   \<and> total_entregas (resumo exemplo_rota_info) = length (com_coordenadas lote)
   \<and> total_entregas (resumo exemplo_rota_info) = 3"
proof -
  have c: "com_coordenadas lote = [nfe_1001, nfe_1003, nfe_1002]"
    by (simp add: com_coordenadas_def lote_def nfe_1001_def nfe_1002_def nfe_1003_def
        cte_2001_def)
  have ps: "map par_local (com_coordenadas lote)
       = [(''Campinas'', ''SP''), (''Jundiai'', ''SP''), (''Campinas'', ''SP'')]"
    unfolding c by (simp add: par_local_def nfe_1001_def nfe_1002_def nfe_1003_def)
  have inj: "inj_on rotulo (set (map par_local (com_coordenadas lote)))"
    unfolding ps by (auto simp: rotulo_def inj_on_def)
  have pairs: "map destino (rotas exemplo_rota_info)
       = map rotulo (first_seen (map par_local (com_coordenadas lote)))"
    and count: "total_entregas (resumo exemplo_rota_info) = length (com_coordenadas lote)"
    using legs_in_first_seen_order_of_key_strings [OF exemplo_run] inj by blast+
  have "map destino (rotas exemplo_rota_info) = [''Campinas, SP'', ''Jundiai, SP'']"
    "map documentos (rotas exemplo_rota_info) = [[''1001'', ''1002''], [''1003'']]"
    "total_entregas (resumo exemplo_rota_info) = 3"
    by (simp_all add: exemplo_rota_info_def)
  moreover have "map numero lote = [''1001'', ''2001'', ''1003'', ''1002'']"
    by (simp add: lote_def nfe_1001_def nfe_1002_def nfe_1003_def cte_2001_def)
  moreover have "map numero (com_coordenadas lote) = [''1001'', ''1003'', ''1002'']"
    unfolding c by (simp add: nfe_1001_def nfe_1002_def nfe_1003_def)
  ultimately show ?thesis
    using exemplo_run ps inj pairs count by (simp only: simp_thms)
qed


end
